theory Spec2Isabelle
  imports Complex_Main "HOL-Library.Log_Nat"
begin

section \<open>JavaScript values\<close>

text \<open>
  A JavaScript string is a sequence of UTF-16 code units; it is modelled as the list of
  its code units, so that the character classes of \<open>trim\<close> and of the regular
  expression \<open>\s\<close> can be written out in full. \<open>js ''abc''\<close> is the string whose
  code units are the ASCII codes of the literal.
\<close>

type_synonym jsstring = "nat list"

definition js :: "string \<Rightarrow> jsstring" where
  "js s = map of_char s"

text \<open>
  \<open>String.prototype.replace\<close> with a one-character string pattern: only the first
  occurrence is replaced.
\<close>

fun replaceFirst :: "nat \<Rightarrow> nat \<Rightarrow> jsstring \<Rightarrow> jsstring" where
  "replaceFirst a b [] = []"
| "replaceFirst a b (c # cs) = (if c = a then b # cs else c # replaceFirst a b cs)"

text \<open>
  \<open>new Date().toISOString().slice(0, 19).replace('T', ' ')\<close>. The clock is outside the
  program: \<open>isoNow\<close> is what \<open>new Date().toISOString()\<close> returned at the call.
\<close>

definition timestamp :: "jsstring \<Rightarrow> jsstring" where
  "timestamp isoNow = replaceFirst (of_char CHR ''T'') (of_char CHR '' '') (take 19 isoNow)"

text \<open>
  A Number is an IEEE 754 double. What \<open>Math.random()\<close> returns is a double that is
  at least 0 and less than 1, and every such double is \<open>mantissa / 2 ^ exponent\<close> for
  a mantissa below \<open>2 ^ 53\<close> and an exponent of at most 1074 (the same double can be
  written with several such pairs).
\<close>

record draw =
  mantissa :: nat
  exponent :: nat

definition validDraw :: "draw \<Rightarrow> bool" where
  "validDraw d = (mantissa d < 2 ^ 53 \<and> mantissa d < 2 ^ exponent d \<and> exponent d \<le> 1074)"

text \<open>
  \<open>Math.floor(r * n)\<close> for such a double \<open>r\<close> and an array length \<open>n\<close>. The two
  factors are doubles, and their product is the double nearest to the exact product
  \<open>mantissa * n / 2 ^ exponent\<close>, the even one of two that are equally near.
  \<open>roundTo53\<close> does this rounding on the numerator: a number of at most 53 bits is
  kept, a longer one is rounded to its leading 53 bits (\<open>floorlog 2 p\<close> is the number
  of bits of \<open>p\<close>). With the exponent at most 1074 a numerator of at most 53 bits
  gives a double as it is, and a longer one gives a product in the normal range, where
  doubles have 53 bits; the product is less than \<open>n\<close>, so it does not overflow. The
  floor of the rounded product is the quotient of the integer division.
\<close>

definition roundTo53 :: "nat \<Rightarrow> nat" where
  "roundTo53 p =
     (let b = floorlog 2 p in
      if b \<le> 53 then p
      else (let s = b - 53; q = p div 2 ^ s; r = p mod 2 ^ s
            in (if r > 2 ^ (s - 1) \<or> (r = 2 ^ (s - 1) \<and> odd q) then q + 1 else q) * 2 ^ s))"

definition floorOfProduct :: "draw \<Rightarrow> nat \<Rightarrow> nat" where
  "floorOfProduct d n = roundTo53 (mantissa d * n) div 2 ^ exponent d"


section \<open>The demo dashboard script (src/unnamed/part\_001)\<close>

subsection \<open>State\<close>

text \<open>
  A product object. The field \<open>id\<close> of the source is \<open>id'\<close> here (\<open>id\<close> is the
  identity function of HOL). \<open>lastChecked\<close> is \<open>null\<close> or a time string.
\<close>

record product =
  id' :: int
  name :: jsstring
  url :: jsstring
  selector :: jsstring
  expectedText :: jsstring
  email :: jsstring
  isActive :: bool
  lastChecked :: "jsstring option"
  createdAt :: jsstring

text \<open>
  The script mutates product objects through references (\<open>products.find\<close> returns the
  object, a timer callback keeps it after the array has dropped it), so objects live in
  an explicit store: \<open>objs\<close> is the list of all product objects ever allocated and a
  reference is an index into it. The global array \<open>products\<close> is a list of references.

  The rest of the record is the other global variables and the part of the page and of
  the browser that the script writes: the children of \<open>#logsList\<close> (first child
  first, each by its \<open>innerHTML\<close>), the text of the three counters and of the
  monitoring status, the notifications shown so far (message and type, in order; their
  removal from the page after four seconds is not modelled), the interval timers that
  are running, and the callbacks that \<open>setTimeout\<close> has been given and that have not
  fired yet. \<open>loadProducts\<close> re-renders \<open>#productsList\<close> from \<open>products\<close> and
  keeps nothing of its own, so it has no field and no function here.
\<close>

record dashboard =
  objs :: "product list"
  products :: "nat list"
  monitoringActive :: bool
  monitoringInterval :: "nat option"
  intervals :: "nat list"
  pendingTests :: "nat list"
  pendingEmailTests :: nat
  pendingSampleLogs :: bool
  logsList :: "jsstring list"
  totalProducts :: nat
  activeProducts :: nat
  notificationsSent :: nat
  monitoringStatus :: jsstring
  monitoringStatusColor :: jsstring
  shown :: "(jsstring \<times> jsstring) list"

subsection \<open>Notifications, log, counters\<close>

definition showNotification :: "jsstring \<Rightarrow> jsstring \<Rightarrow> dashboard \<Rightarrow> dashboard" where
  "showNotification message type st = st\<lparr>shown := shown st @ [(message, type)]\<rparr>"

text \<open>
  The loop \<open>while (logsList.children.length > 20) logsList.removeChild(logsList.lastChild)\<close>.
\<close>

function keepLast20 :: "jsstring list \<Rightarrow> jsstring list" where
  "keepLast20 children =
     (if length children > 20 then keepLast20 (butlast children) else children)"
  by pat_completeness auto
termination
  by (relation "measure length") auto

declare keepLast20.simps [simp del]

text \<open>
  \<open>addLogEntry\<close> reads the clock itself, inserts the new entry before the first child
  and then runs the loop above.
\<close>

definition logEntryHtml :: "jsstring \<Rightarrow> jsstring \<Rightarrow> jsstring" where
  \<open>logEntryHtml now message =
     js ''<span class="log-time">'' @ now @ js ''</span> - '' @ message\<close>

definition addLogEntry :: "jsstring \<Rightarrow> jsstring \<Rightarrow> dashboard \<Rightarrow> dashboard" where
  "addLogEntry isoNow message st =
     (let now = timestamp isoNow;
          logEntry = logEntryHtml now message
      in st\<lparr>logsList := keepLast20 (logEntry # logsList st)\<rparr>)"

definition updateStats :: "dashboard \<Rightarrow> dashboard" where
  "updateStats st =
     st\<lparr>totalProducts := length (products st),
        activeProducts := length (filter (\<lambda>p. isActive (objs st ! p)) (products st)),
        notificationsSent := length (filter (\<lambda>p. \<not> isActive (objs st ! p)) (products st))\<rparr>"

subsection \<open>Products\<close>

text \<open>
  The form \<open>#addProductForm\<close> has the five named text inputs, so \<open>formData.get\<close>
  returns a string for each of them: the form data is a function from the field name to
  its value. \<open>nowMs\<close> is what \<open>Date.now()\<close> returned, \<open>isoNow\<close> what the later
  \<open>new Date().toISOString()\<close> returned. The new object is allocated at the end of the
  store and its reference is pushed onto \<open>products\<close>.
\<close>

definition addProduct :: "(string \<Rightarrow> jsstring) \<Rightarrow> int \<Rightarrow> jsstring \<Rightarrow> dashboard \<Rightarrow> dashboard" where
  "addProduct formData nowMs isoNow st =
     (let newProduct = \<lparr>id' = nowMs,
                        name = formData ''productName'',
                        url = formData ''productUrl'',
                        selector = formData ''productSelector'',
                        expectedText = formData ''expectedText'',
                        email = formData ''productEmail'',
                        isActive = True,
                        lastChecked = None,
                        createdAt = timestamp isoNow\<rparr>;
          st1 = st\<lparr>objs := objs st @ [newProduct],
                   products := products st @ [length (objs st)]\<rparr>
      in showNotification (js ''Product added successfully!'') (js ''success'')
           (updateStats st1))"

text \<open>\<open>products.find(p => p.id === productId)\<close>: the first product with that id.\<close>

definition findProduct :: "int \<Rightarrow> dashboard \<Rightarrow> nat option" where
  "findProduct productId st = List.find (\<lambda>p. id' (objs st ! p) = productId) (products st)"

text \<open>
  \<open>testProduct\<close> returns at once when no product has the id; otherwise it shows a
  notification and leaves a callback with \<open>setTimeout\<close>, which holds the product
  object. The callback is \<open>testProductTimeout\<close>; \<open>random\<close> is the value that
  \<open>Math.random()\<close> returns in it, taken as the real number it is since it is only
  compared with 0.5, and the clock is read twice, by \<open>addLogEntry\<close> and for
  \<open>lastChecked\<close>.
\<close>

definition testProduct :: "int \<Rightarrow> dashboard \<Rightarrow> dashboard" where
  "testProduct productId st =
     (case findProduct productId st of
        None \<Rightarrow> st
      | Some product \<Rightarrow>
          (showNotification (js ''Testing '' @ name (objs st ! product) @ js ''...'') (js ''info'') st)
            \<lparr>pendingTests := pendingTests st @ [product]\<rparr>)"

definition isInStock :: "real \<Rightarrow> bool" where
  "isInStock random = (random > 0.5)"

definition testProductTimeout :: "nat \<Rightarrow> real \<Rightarrow> jsstring \<Rightarrow> jsstring \<Rightarrow> dashboard \<Rightarrow> dashboard" where
  "testProductTimeout product random isoLog isoChecked st =
     (let pname = name (objs st ! product);
          message = (if isInStock random
                     then pname @ js '' is IN STOCK! '' @ [0xD83C, 0xDF89]
                     else pname @ js '' is out of stock.'');
          st1 = showNotification message (if isInStock random then js ''success'' else js ''info'') st;
          st2 = addLogEntry isoLog
                  (js ''Tested '' @ pname @ js '': '' @
                     (if isInStock random then js ''IN STOCK'' else js ''OUT OF STOCK'')) st1
      in st2\<lparr>objs := (objs st2)[product := (objs st2 ! product)\<lparr>lastChecked := Some (timestamp isoChecked)\<rparr>]\<rparr>)"

text \<open>\<open>confirmed\<close> is the answer to the \<open>confirm\<close> dialog.\<close>

definition deleteProduct :: "int \<Rightarrow> bool \<Rightarrow> dashboard \<Rightarrow> dashboard" where
  "deleteProduct productId confirmed st =
     (if confirmed
      then showNotification (js ''Product deleted successfully!'') (js ''success'')
             (updateStats (st\<lparr>products := filter (\<lambda>p. id' (objs st ! p) \<noteq> productId) (products st)\<rparr>))
      else st)"

subsection \<open>Monitoring\<close>

text \<open>
  The callback given to \<open>setInterval\<close>; \<open>random\<close> is the double that
  \<open>Math.random()\<close> returns in it, and the index is computed in doubles. An index
  outside the array gives \<open>undefined\<close> in the source, whose \<open>.name\<close> throws before
  anything is written, so the state is unchanged there.
\<close>

definition monitoringTick :: "draw \<Rightarrow> jsstring \<Rightarrow> jsstring \<Rightarrow> dashboard \<Rightarrow> dashboard" where
  "monitoringTick random isoLog isoChecked st =
     (let activeProducts = filter (\<lambda>p. isActive (objs st ! p)) (products st) in
      if length activeProducts > 0 then
        (let i = floorOfProduct random (length activeProducts) in
         if i < length activeProducts then
           (let product = activeProducts ! i;
                st1 = addLogEntry isoLog
                        (js ''Checked '' @ name (objs st ! product) @ js '': OUT OF STOCK'') st
            in st1\<lparr>objs := (objs st1)[product :=
                          (objs st1 ! product)\<lparr>lastChecked := Some (timestamp isoChecked)\<rparr>]\<rparr>)
         else st)
      else st)"

text \<open>
  \<open>handle\<close> is the number that \<open>setInterval\<close> returns (for a browser, an integer
  greater than zero). \<open>clearInterval\<close> is called only when \<open>monitoringInterval\<close> is
  truthy, that is, defined and not zero.
\<close>

definition startMonitoring :: "nat \<Rightarrow> jsstring \<Rightarrow> dashboard \<Rightarrow> dashboard" where
  "startMonitoring handle isoNow st =
     (if monitoringActive st then st
      else
        (let st1 = st\<lparr>monitoringActive := True,
                      monitoringStatus := [0xD83D, 0xDFE2] @ js '' Running'',
                      monitoringStatusColor := js ''#27ae60''\<rparr>;
             st2 = showNotification (js ''Monitoring started!'') (js ''success'') st1;
             st3 = addLogEntry isoNow (js ''Bot monitoring started'') st2
         in st3\<lparr>monitoringInterval := Some handle, intervals := intervals st3 @ [handle]\<rparr>))"

definition stopMonitoring :: "jsstring \<Rightarrow> dashboard \<Rightarrow> dashboard" where
  "stopMonitoring isoNow st =
     (if \<not> monitoringActive st then st
      else
        (let st1 = st\<lparr>monitoringActive := False,
                      monitoringStatus := [0xD83D, 0xDD34] @ js '' Stopped'',
                      monitoringStatusColor := js ''#e74c3c''\<rparr>;
             st2 = (case monitoringInterval st1 of
                      None \<Rightarrow> st1
                    | Some h \<Rightarrow> if h \<noteq> 0 then st1\<lparr>intervals := removeAll h (intervals st1)\<rparr> else st1);
             st3 = showNotification (js ''Monitoring stopped!'') (js ''info'') st2
         in addLogEntry isoNow (js ''Bot monitoring stopped'') st3))"

definition testEmail :: "dashboard \<Rightarrow> dashboard" where
  "testEmail st =
     (showNotification (js ''Sending test email...'') (js ''info'') st)
       \<lparr>pendingEmailTests := Suc (pendingEmailTests st)\<rparr>"

definition testEmailTimeout :: "jsstring \<Rightarrow> dashboard \<Rightarrow> dashboard" where
  "testEmailTimeout isoNow st =
     addLogEntry isoNow (js ''Test email sent successfully'')
       (showNotification (js ''Test email sent successfully! '' @ [0xD83D, 0xDCE7]) (js ''success'') st)"

subsection \<open>Page load and events\<close>

text \<open>
  The state once the script has been evaluated: the two sample products, monitoring
  off, \<open>monitoringInterval\<close> undefined, no interval running, and the timeout of the
  last lines of the script (the two sample log entries) waiting. The page content is that
  of templates/dashboard.html: three log entries, the counters at 0, the status text
  \<open>Stopped\<close> with no colour set.
\<close>

definition sampleProducts :: "product list" where
  "sampleProducts =
     [\<lparr>id' = 1,
       name = js ''MacBook Pro M1'',
       url = js ''https://www.amazon.in/Apple-MacBook-Chip-13-inch-512GB/dp/B08N5WRWNW'',
       selector = js ''.a-color-price'',
       expectedText = js ''Currently unavailable'',
       email = js ''user@example.com'',
       isActive = True,
       lastChecked = Some (js ''2024-01-15 14:25:00''),
       createdAt = js ''2024-01-15 10:00:00''\<rparr>,
      \<lparr>id' = 2,
       name = js ''Google Test'',
       url = js ''https://www.google.com'',
       selector = js ''title'',
       expectedText = js ''NonExistentText'',
       email = js ''user@example.com'',
       isActive = False,
       lastChecked = Some (js ''2024-01-15 14:20:00''),
       createdAt = js ''2024-01-15 12:00:00''\<rparr>]"

definition templateLogEntry :: "jsstring \<Rightarrow> jsstring \<Rightarrow> jsstring" where
  "templateLogEntry time message =
     [10] @ replicate 24 32 @ logEntryHtml time message @ [10] @ replicate 20 32"

definition templateLogs :: "jsstring list" where
  "templateLogs =
     [templateLogEntry (js ''2024-01-15 14:30:25'') (js ''Bot initialized successfully''),
      templateLogEntry (js ''2024-01-15 14:30:26'') (js ''Database connection established''),
      templateLogEntry (js ''2024-01-15 14:30:27'') (js ''Ready to monitor products'')]"

definition initial :: dashboard where
  "initial =
     \<lparr>objs = sampleProducts,
      products = [0, 1],
      monitoringActive = False,
      monitoringInterval = None,
      intervals = [],
      pendingTests = [],
      pendingEmailTests = 0,
      pendingSampleLogs = True,
      logsList = templateLogs,
      totalProducts = 0,
      activeProducts = 0,
      notificationsSent = 0,
      monitoringStatus = js ''Stopped'',
      monitoringStatusColor = [],
      shown = []\<rparr>"

text \<open>
  The \<open>DOMContentLoaded\<close> listener (\<open>loadProducts(); updateStats(); setupEventListeners()\<close>)
  and the timeout set by the last lines of the script.
\<close>

definition domContentLoaded :: "dashboard \<Rightarrow> dashboard" where
  "domContentLoaded st = updateStats st"

definition sampleLogsTimeout :: "jsstring \<Rightarrow> jsstring \<Rightarrow> dashboard \<Rightarrow> dashboard" where
  "sampleLogsTimeout isoNow1 isoNow2 st =
     addLogEntry isoNow2 (js ''Ready to monitor products'')
       (addLogEntry isoNow1 (js ''Dashboard loaded successfully'') st)"

text \<open>
  What can happen to the page after it has loaded. Each event carries what the
  environment supplies to the handler: the form data, the clock readings, the random
  number, the answer to the confirm dialog, the handle returned by \<open>setInterval\<close>. A
  timer event runs its callback only if that timer exists: the callback of
  \<open>testProduct\<close> for a product object only while one is pending for that object, the
  interval callback only while some interval is running.
\<close>

datatype event =
    SubmitForm "string \<Rightarrow> jsstring" int jsstring
  | ClickTest int
  | TestTimeout nat real jsstring jsstring
  | ClickDelete int bool
  | ClickStart nat jsstring
  | ClickStop jsstring
  | IntervalElapsed draw jsstring jsstring
  | ClickTestEmail
  | TestEmailTimeout jsstring
  | SampleLogsTimeout jsstring jsstring

fun fire :: "event \<Rightarrow> dashboard \<Rightarrow> dashboard" where
  "fire (SubmitForm formData nowMs isoNow) st = addProduct formData nowMs isoNow st"
| "fire (ClickTest productId) st = testProduct productId st"
| "fire (TestTimeout product random isoLog isoChecked) st =
     (if product \<in> set (pendingTests st)
      then testProductTimeout product random isoLog isoChecked
             (st\<lparr>pendingTests := remove1 product (pendingTests st)\<rparr>)
      else st)"
| "fire (ClickDelete productId confirmed) st = deleteProduct productId confirmed st"
| "fire (ClickStart handle isoNow) st = startMonitoring handle isoNow st"
| "fire (ClickStop isoNow) st = stopMonitoring isoNow st"
| "fire (IntervalElapsed random isoLog isoChecked) st =
     (if intervals st \<noteq> [] then monitoringTick random isoLog isoChecked st else st)"
| "fire ClickTestEmail st = testEmail st"
| "fire (TestEmailTimeout isoNow) st =
     (if pendingEmailTests st > 0
      then testEmailTimeout isoNow (st\<lparr>pendingEmailTests := pendingEmailTests st - 1\<rparr>)
      else st)"
| "fire (SampleLogsTimeout isoNow1 isoNow2) st =
     (if pendingSampleLogs st
      then sampleLogsTimeout isoNow1 isoNow2 (st\<lparr>pendingSampleLogs := False\<rparr>)
      else st)"

fun run :: "event list \<Rightarrow> dashboard \<Rightarrow> dashboard" where
  "run [] st = st"
| "run (e # es) st = run es (fire e st)"

text \<open>
  What a browser guarantees of the values it supplies: a timer handle is greater than
  zero, and \<open>Math.random()\<close> is at least 0 and less than 1.
\<close>

fun browserEvent :: "event \<Rightarrow> bool" where
  "browserEvent (ClickStart handle isoNow) = (handle > 0)"
| "browserEvent (IntervalElapsed random isoLog isoChecked) = validDraw random"
| "browserEvent (TestTimeout product random isoLog isoChecked) = (0 \<le> random \<and> random < 1)"
| "browserEvent e = True"

text \<open>A product object without what a check writes to it.\<close>

definition fixedPart :: "product \<Rightarrow> product" where
  "fixedPart p = p\<lparr>lastChecked := None\<rparr>"

text \<open>
  The periodic loop and the flag agree: while \<open>monitoringActive\<close> holds, the one
  interval running is the one whose handle is in \<open>monitoringInterval\<close>; otherwise
  none is running.
\<close>

definition singleLoop :: "dashboard \<Rightarrow> bool" where
  "singleLoop st =
     (if monitoringActive st
      then (case monitoringInterval st of None \<Rightarrow> False | Some h \<Rightarrow> h > 0 \<and> intervals st = [h])
      else intervals st = [])"

text \<open>
  \<open>products.filter(p => p.isActive)\<close> and the element of it that the interval
  callback picks for the random number \<open>random\<close>.
\<close>

definition activeRefs :: "dashboard \<Rightarrow> nat list" where
  "activeRefs st = filter (\<lambda>p. isActive (objs st ! p)) (products st)"

definition chosenProduct :: "draw \<Rightarrow> dashboard \<Rightarrow> nat" where
  "chosenProduct random st = activeRefs st ! floorOfProduct random (length (activeRefs st))"

text \<open>The number of products in the array whose \<open>isActive\<close> is false.\<close>

definition inactiveCount :: "dashboard \<Rightarrow> nat" where
  "inactiveCount st = length (filter (\<lambda>p. \<not> isActive (objs st ! p)) (products st))"

text \<open>
  For the examples: form data, a clock reading, a log of twenty entries, the doubles
  0 and 0.6666666666666666 (the double nearest to two thirds), and the page once it has
  loaded, one or two products have been added and monitoring has been started, so that
  the first sample product and the new products are active.
\<close>

definition exampleForm :: "string \<Rightarrow> jsstring" where
  "exampleForm field =
     (if field = ''productName'' then js ''Kettle''
      else if field = ''productUrl'' then js ''https://shop.example.com/kettle''
      else if field = ''productSelector'' then js ''.stock''
      else if field = ''expectedText'' then js ''Sold out''
      else if field = ''productEmail'' then js ''me@example.com''
      else [])"

definition exampleIso :: jsstring where
  "exampleIso = js ''2024-01-15T14:31:00.000Z''"

definition fullLog :: "jsstring list" where
  "fullLog = map (\<lambda>n. [n]) [1..<21]"

definition drawZero :: draw where
  "drawZero = \<lparr>mantissa = 0, exponent = 0\<rparr>"

definition drawTwoThirds :: draw where
  "drawTwoThirds = \<lparr>mantissa = 6004799503160661, exponent = 53\<rparr>"

definition threeActive :: dashboard where
  "threeActive =
     run [SubmitForm exampleForm 1705329060000 exampleIso,
          SubmitForm exampleForm 1705329060001 exampleIso, ClickStart 1 exampleIso]
       (domContentLoaded initial)"

definition twoActive :: dashboard where
  "twoActive =
     run [SubmitForm exampleForm 1705329060000 exampleIso, ClickStart 1 exampleIso]
       (domContentLoaded initial)"


section \<open>The dashboard client (src/static/js/dashboard.js)\<close>

subsection \<open>Rendering the log\<close>

text \<open>
  \<open>log.includes(sub)\<close>, here \<open>includesStr\<close>: \<open>sub\<close> occurs in \<open>log\<close> as a
  contiguous part.
\<close>

fun startsWith :: "jsstring \<Rightarrow> jsstring \<Rightarrow> bool" where
  "startsWith s [] = True"
| "startsWith [] (c # cs) = False"
| "startsWith (x # xs) (c # cs) = (x = c \<and> startsWith xs cs)"

fun includesStr :: "jsstring \<Rightarrow> jsstring \<Rightarrow> bool" where
  "includesStr [] sub = (sub = [])"
| "includesStr (x # xs) sub = (startsWith (x # xs) sub \<or> includesStr xs sub)"

definition getLogClass :: "jsstring \<Rightarrow> jsstring" where
  "getLogClass logLine =
     (if includesStr logLine (js ''ERROR'') then js ''log-error''
      else if includesStr logLine (js ''WARNING'') then js ''log-warning''
      else if includesStr logLine (js ''INFO'') then js ''log-info''
      else [])"

text \<open>\<open>logs.slice(-20).reverse()\<close>: the last twenty elements, the last one first.\<close>

definition sliceLast20Reversed :: "'a list \<Rightarrow> 'a list" where
  "sliceLast20Reversed logs = rev (drop (length logs - 20) logs)"

text \<open>
  \<open>renderLogs\<close> receives \<open>data.logs\<close> of the response (\<open>None\<close> when it is
  \<open>undefined\<close> or \<open>null\<close>) and sets the content of \<open>#logsList\<close>. The result is
  the list of the elements written, each by its HTML; the container's \<open>innerHTML\<close> is
  their concatenation. \<open>escapeHtml\<close> is the browser's serialisation of a text node
  and is a parameter.
\<close>

definition renderLogs :: "(jsstring \<Rightarrow> jsstring) \<Rightarrow> jsstring list option \<Rightarrow> jsstring list" where
  \<open>renderLogs escapeHtml logs =
     (case logs of
        None \<Rightarrow> [js ''<div class="log-entry">No logs available</div>'']
      | Some ls \<Rightarrow>
          if length ls = 0 then [js ''<div class="log-entry">No logs available</div>'']
          else map (\<lambda>logLine. js ''<div class="log-entry '' @ getLogClass logLine @ js ''">'' @
                            escapeHtml logLine @ js ''</div>'')
                 (sliceLast20Reversed ls))\<close>

subsection \<open>Validating the add-product form\<close>

text \<open>
  The code units that \<open>String.prototype.trim\<close> removes and that \<open>\s\<close> matches in a
  regular expression: the white space and the line terminators of ECMAScript.
\<close>

definition isWhiteSpace :: "nat \<Rightarrow> bool" where
  "isWhiteSpace c =
     (c = 0x09 \<or> c = 0x0A \<or> c = 0x0B \<or> c = 0x0C \<or> c = 0x0D \<or> c = 0x20 \<or> c = 0xA0 \<or>
      c = 0x1680 \<or> (0x2000 \<le> c \<and> c \<le> 0x200A) \<or> c = 0x2028 \<or> c = 0x2029 \<or>
      c = 0x202F \<or> c = 0x205F \<or> c = 0x3000 \<or> c = 0xFEFF)"

definition trimWith :: "('c \<Rightarrow> bool) \<Rightarrow> 'c list \<Rightarrow> 'c list" where
  "trimWith ws s = rev (dropWhile ws (rev (dropWhile ws s)))"

definition trim :: "jsstring \<Rightarrow> jsstring" where
  "trim s = trimWith isWhiteSpace s"

text \<open>
  The regular expressions of the file are sequences of pieces, a piece being one atom or
  an atom followed by \<open>+\<close>, an atom a literal character or a negated class.
  \<open>afterPiece p s\<close> lists what can remain of \<open>s\<close> once \<open>p\<close> has matched at its
  start, \<open>afterPieces\<close> does the same for a sequence, and \<open>test\<close> is
  \<open>RegExp.prototype.test\<close> for a pattern between \<open>^\<close> and \<open>$\<close>: some way of
  matching leaves nothing.
\<close>

datatype atom = Lit nat | NotOneOf "nat \<Rightarrow> bool"

datatype piece = Once atom | OneOrMore atom

fun matchAtom :: "atom \<Rightarrow> nat \<Rightarrow> bool" where
  "matchAtom (Lit a) c = (c = a)"
| "matchAtom (NotOneOf excluded) c = (\<not> excluded c)"

fun afterPiece :: "piece \<Rightarrow> jsstring \<Rightarrow> jsstring list" where
  "afterPiece p [] = []"
| "afterPiece (Once a) (c # cs) = (if matchAtom a c then [cs] else [])"
| "afterPiece (OneOrMore a) (c # cs) =
     (if matchAtom a c then cs # afterPiece (OneOrMore a) cs else [])"

fun afterPieces :: "piece list \<Rightarrow> jsstring \<Rightarrow> jsstring list" where
  "afterPieces [] s = [s]"
| "afterPieces (p # ps) s = concat (map (afterPieces ps) (afterPiece p s))"

definition test :: "piece list \<Rightarrow> jsstring \<Rightarrow> bool" where
  "test regex s = ([] \<in> set (afterPieces regex s))"

text \<open>\<open>/^[^\s@]+@[^\s@]+\.[^\s@]+$/\<close>\<close>

definition spaceOrAt :: "nat \<Rightarrow> bool" where
  "spaceOrAt c = (isWhiteSpace c \<or> c = of_char CHR ''@'')"

definition emailRegex :: "piece list" where
  "emailRegex =
     [OneOrMore (NotOneOf spaceOrAt), Once (Lit (of_char CHR ''@'')),
      OneOrMore (NotOneOf spaceOrAt), Once (Lit (of_char CHR ''.'')),
      OneOrMore (NotOneOf spaceOrAt)]"

text \<open>
  \<open>handleAddProduct\<close> up to the request. \<open>formData.get\<close> returns \<open>null\<close> for a field
  that the form does not have, and \<open>null.trim()\<close> throws; \<open>new URL(s)\<close> is the
  browser's parser, a parameter that says whether it accepts \<open>s\<close>. The function ends
  in one of three ways: the exception, a return after an error notification (with its
  message), or the POST of the product data to \<open>/api/products\<close> (with the properties
  of the object sent, in order). What follows the response only shows notifications and
  reloads the page data.
\<close>

datatype submission =
    TypeError
  | Rejected jsstring
  | Posted "(string \<times> jsstring) list"

definition handleAddProduct :: "(jsstring \<Rightarrow> bool) \<Rightarrow> (string \<Rightarrow> jsstring option) \<Rightarrow> submission" where
  "handleAddProduct urlParses formData =
     (case (formData ''productName'', formData ''productUrl'', formData ''productSelector'',
            formData ''expectedText'', formData ''productEmail'') of
        (Some n, Some u, Some s, Some t, Some m) \<Rightarrow>
          if trim n = [] \<or> trim u = [] \<or> trim s = [] \<or> trim t = [] \<or> trim m = []
          then Rejected (js ''Please fill in all fields'')
          else if \<not> urlParses (trim u)
          then Rejected (js ''Please enter a valid URL'')
          else if \<not> test emailRegex (trim m)
          then Rejected (js ''Please enter a valid email address'')
          else Posted [(''name'', trim n), (''url'', trim u), (''selector'', trim s),
                       (''expected_text'', trim t), (''email'', trim m)]
      | _ \<Rightarrow> TypeError)"

text \<open>
  What the regular expression accepts, said without the matcher: a local part, an
  \<open>@\<close>, a domain, a dot and a last part, the three parts non-empty and free of white
  space and of \<open>@\<close>.
\<close>

definition emailShape :: "jsstring \<Rightarrow> bool" where
  "emailShape s =
     (\<exists>local domain tld.
        s = local @ [of_char CHR ''@''] @ domain @ [of_char CHR ''.''] @ tld \<and>
        local \<noteq> [] \<and> domain \<noteq> [] \<and> tld \<noteq> [] \<and>
        list_all (\<lambda>c. \<not> isWhiteSpace c \<and> c \<noteq> of_char CHR ''@'') (local @ domain @ tld))"

text \<open>
  A form for the examples: the values of \<open>exampleForm\<close> with white space around
  them, and no value for a field that the form does not have. In the examples the URL
  parser is taken to accept what starts with \<open>https://\<close>.
\<close>

definition exampleSubmission :: "string \<Rightarrow> jsstring option" where
  "exampleSubmission field =
     (if exampleForm field = [] then None else Some ([32, 32] @ exampleForm field @ [32, 10]))"

definition exampleUrlParses :: "jsstring \<Rightarrow> bool" where
  "exampleUrlParses u = startsWith u (js ''https://'')"


section \<open>The monitoring engine of the specification\<close>

text \<open>
  Modelled from the spec: the outcomes of a check (CheckResult, section 3). The engine
  that produces them is the Python backend, which is not among the sources.
\<close>

datatype outcome = InStock | OutOfStock | FetchFailed | ExtractFailed

text \<open>
  Modelled from the spec: the result of the Extractor (section 4.1), the matched text or
  "not found". The extractor itself is part of the backend.
\<close>

datatype 'c extracted = NotFound | Found "'c list"

text \<open>
  Modelled from the spec: the StockEvaluator of section 4.2, which the sources do not
  contain. "Not found" gives \<open>ExtractFailed\<close>; otherwise the extracted text with the
  white space trimmed off its two ends is compared, character by character, with the
  marker. The spec does not say which characters are white space: \<open>ws\<close> is a
  parameter.
\<close>

fun evaluate :: "('c \<Rightarrow> bool) \<Rightarrow> 'c extracted \<Rightarrow> 'c list \<Rightarrow> outcome" where
  "evaluate ws NotFound unavailable_marker = ExtractFailed"
| "evaluate ws (Found text) unavailable_marker =
     (if trimWith ws text = unavailable_marker then OutOfStock else InStock)"

text \<open>
  Modelled from the spec: the lifecycle states of a product and the part of the product
  record that the engine writes (section 3); the product store is part of the backend.
\<close>

datatype lifecycle = Active | Suspended

record engineProduct =
  productId :: nat
  state :: lifecycle
  last_checked_at :: "nat option"
  last_error :: "string option"

text \<open>
  Modelled from the spec: what reaches a product, a check result with its timestamp and
  diagnostic text, or the external deactivation (section 4.3).
\<close>

datatype engineEvent = CheckResult outcome nat string | Deactivate

text \<open>
  Modelled from the spec: the transitions of section 4.3 with the notifier of section
  4.5, absent from the sources. The function returns the product after the event and the
  notifications enqueued by it (each names the product and the time of the check). The
  handler looks at the current state first (section 5): nothing leaves \<open>Suspended\<close>,
  and a result that arrives for a suspended product changes nothing.
\<close>

fun transition :: "engineEvent \<Rightarrow> engineProduct \<Rightarrow> engineProduct \<times> (nat \<times> nat) list" where
  "transition Deactivate p = (p\<lparr>state := Suspended\<rparr>, [])"
| "transition (CheckResult res t diag) p =
     (case state p of
        Suspended \<Rightarrow> (p, [])
      | Active \<Rightarrow>
          (case res of
             InStock \<Rightarrow> (p\<lparr>state := Suspended, last_checked_at := Some t\<rparr>, [(productId p, t)])
           | OutOfStock \<Rightarrow> (p\<lparr>last_checked_at := Some t\<rparr>, [])
           | FetchFailed \<Rightarrow> (p\<lparr>last_checked_at := Some t, last_error := Some diag\<rparr>, [])
           | ExtractFailed \<Rightarrow> (p\<lparr>last_checked_at := Some t, last_error := Some diag\<rparr>, [])))"

text \<open>
  Modelled from the spec: an execution, the events reaching one product in order; the
  notifications of the steps are collected in order.
\<close>

fun execution :: "engineEvent list \<Rightarrow> engineProduct \<Rightarrow> engineProduct \<times> (nat \<times> nat) list" where
  "execution [] p = (p, [])"
| "execution (e # es) p =
     (let (p1, ns1) = transition e p;
          (p2, ns2) = execution es p1
      in (p2, ns1 @ ns2))"

text \<open>
  Modelled from the spec: whether an event is a check result with outcome \<open>InStock\<close>,
  the only cause of a restock transition (section 4.3).
\<close>

fun inStockResult :: "engineEvent \<Rightarrow> bool" where
  "inStockResult (CheckResult res t diag) = (res = InStock)"
| "inStockResult Deactivate = False"

text \<open>
  Modelled from the spec: the restock transitions of an execution, the steps at which an
  \<open>InStock\<close> result moves the product from \<open>Active\<close> to \<open>Suspended\<close> (glossary).
\<close>

fun restockTransitions :: "engineEvent list \<Rightarrow> engineProduct \<Rightarrow> nat" where
  "restockTransitions [] p = 0"
| "restockTransitions (e # es) p =
     (let p1 = fst (transition e p)
      in (if state p = Active \<and> state p1 = Suspended \<and> inStockResult e
          then 1 else 0) + restockTransitions es p1)"

text \<open>A product for the examples.\<close>

definition exampleEngineProduct :: engineProduct where
  "exampleEngineProduct = \<lparr>productId = 7, state = Active, last_checked_at = None, last_error = None\<rparr>"


section \<open>Properties of the demo dashboard script\<close>

subsection \<open>The log loop and the primitive updates\<close>

lemma keepLast20_take: "keepLast20 children = take 20 children"
proof (induction children rule: keepLast20.induct)
  case (1 children)
  show ?case
  proof (cases "length children > 20")
    case True
    then have "keepLast20 children = take 20 (butlast children)"
      using "1" by (simp add: keepLast20.simps [of children])
    also have "\<dots> = take 20 children"
      using True by (simp add: butlast_conv_take)
    finally show ?thesis .
  next
    case False
    then show ?thesis by (simp add: keepLast20.simps [of children])
  qed
qed

lemma sliceLast20Reversed_take: "sliceLast20Reversed logs = take 20 (rev logs)"
  by (simp add: sliceLast20Reversed_def take_rev)

lemma showNotification_fields:
  "objs (showNotification m t st) = objs st"
  "products (showNotification m t st) = products st"
  "monitoringActive (showNotification m t st) = monitoringActive st"
  "monitoringInterval (showNotification m t st) = monitoringInterval st"
  "intervals (showNotification m t st) = intervals st"
  "pendingTests (showNotification m t st) = pendingTests st"
  "pendingEmailTests (showNotification m t st) = pendingEmailTests st"
  "pendingSampleLogs (showNotification m t st) = pendingSampleLogs st"
  "logsList (showNotification m t st) = logsList st"
  "totalProducts (showNotification m t st) = totalProducts st"
  "activeProducts (showNotification m t st) = activeProducts st"
  "notificationsSent (showNotification m t st) = notificationsSent st"
  "monitoringStatus (showNotification m t st) = monitoringStatus st"
  "monitoringStatusColor (showNotification m t st) = monitoringStatusColor st"
  "shown (showNotification m t st) = shown st @ [(m, t)]"
  by (simp_all add: showNotification_def)

lemma addLogEntry_fields:
  "objs (addLogEntry i m st) = objs st"
  "products (addLogEntry i m st) = products st"
  "monitoringActive (addLogEntry i m st) = monitoringActive st"
  "monitoringInterval (addLogEntry i m st) = monitoringInterval st"
  "intervals (addLogEntry i m st) = intervals st"
  "pendingTests (addLogEntry i m st) = pendingTests st"
  "pendingEmailTests (addLogEntry i m st) = pendingEmailTests st"
  "pendingSampleLogs (addLogEntry i m st) = pendingSampleLogs st"
  "logsList (addLogEntry i m st) = take 20 (logEntryHtml (timestamp i) m # logsList st)"
  "totalProducts (addLogEntry i m st) = totalProducts st"
  "activeProducts (addLogEntry i m st) = activeProducts st"
  "notificationsSent (addLogEntry i m st) = notificationsSent st"
  "monitoringStatus (addLogEntry i m st) = monitoringStatus st"
  "monitoringStatusColor (addLogEntry i m st) = monitoringStatusColor st"
  "shown (addLogEntry i m st) = shown st"
  by (simp_all add: addLogEntry_def Let_def keepLast20_take)

lemma updateStats_fields:
  "objs (updateStats st) = objs st"
  "products (updateStats st) = products st"
  "monitoringActive (updateStats st) = monitoringActive st"
  "monitoringInterval (updateStats st) = monitoringInterval st"
  "intervals (updateStats st) = intervals st"
  "pendingTests (updateStats st) = pendingTests st"
  "pendingEmailTests (updateStats st) = pendingEmailTests st"
  "pendingSampleLogs (updateStats st) = pendingSampleLogs st"
  "logsList (updateStats st) = logsList st"
  "totalProducts (updateStats st) = length (products st)"
  "activeProducts (updateStats st) = length (filter (\<lambda>p. isActive (objs st ! p)) (products st))"
  "notificationsSent (updateStats st) = length (filter (\<lambda>p. \<not> isActive (objs st ! p)) (products st))"
  "monitoringStatus (updateStats st) = monitoringStatus st"
  "monitoringStatusColor (updateStats st) = monitoringStatusColor st"
  "shown (updateStats st) = shown st"
  by (simp_all add: updateStats_def)

lemmas prim_fields = showNotification_fields addLogEntry_fields updateStats_fields

lemmas op_defs = addProduct_def testProduct_def testProductTimeout_def deleteProduct_def
  monitoringTick_def startMonitoring_def stopMonitoring_def testEmail_def testEmailTimeout_def
  sampleLogsTimeout_def

subsection \<open>The store under the events\<close>

lemma touch_nth:
  "(xs[i := g (xs ! i)]) ! r = (if r = i \<and> i < length xs then g (xs ! r) else xs ! r)"
  by (cases "i < length xs") (auto simp: nth_list_update list_update_beyond)

lemma fixedPart_touch:
  "fixedPart ((xs[i := (xs ! i)\<lparr>lastChecked := v\<rparr>]) ! r) = fixedPart (xs ! r)"
  by (simp add: touch_nth fixedPart_def)

lemma fixedPart_fields:
  "id' (fixedPart p) = id' p" "createdAt (fixedPart p) = createdAt p"
  "isActive (fixedPart p) = isActive p" "name (fixedPart p) = name p"
  by (simp_all add: fixedPart_def)

lemma objs_addProduct: "objs (addProduct f n i st) = objs st @ [\<lparr>id' = n, name = f ''productName'', url = f ''productUrl'',
    selector = f ''productSelector'', expectedText = f ''expectedText'', email = f ''productEmail'',
    isActive = True, lastChecked = None, createdAt = timestamp i\<rparr>]"
  by (simp add: addProduct_def Let_def prim_fields)

lemma products_addProduct: "products (addProduct f n i st) = products st @ [length (objs st)]"
  by (simp add: addProduct_def Let_def prim_fields)

lemma objs_testProduct: "objs (testProduct i st) = objs st"
  by (simp add: testProduct_def prim_fields split: option.splits)

lemma objs_testProductTimeout: "objs (testProductTimeout p r i j st) = (objs st)[p := (objs st ! p)\<lparr>lastChecked := Some (timestamp j)\<rparr>]"
  by (simp add: testProductTimeout_def Let_def prim_fields)

lemma objs_deleteProduct: "objs (deleteProduct p c st) = objs st"
  by (simp add: deleteProduct_def prim_fields)

lemma objs_monitoringTick:
  "objs (monitoringTick d i j st) = objs st \<or>
   (\<exists>p. objs (monitoringTick d i j st) = (objs st)[p := (objs st ! p)\<lparr>lastChecked := Some (timestamp j)\<rparr>])"
  by (auto simp add: monitoringTick_def Let_def prim_fields)

lemma objs_startMonitoring: "objs (startMonitoring h i st) = objs st"
  by (simp add: startMonitoring_def Let_def prim_fields)

lemma objs_stopMonitoring: "objs (stopMonitoring i st) = objs st"
  by (simp add: stopMonitoring_def Let_def prim_fields split: option.splits)

lemma objs_others: "objs (testEmail st) = objs st" "objs (testEmailTimeout i st) = objs st"
  "objs (sampleLogsTimeout i j st) = objs st"
  by (simp_all add: testEmail_def testEmailTimeout_def sampleLogsTimeout_def prim_fields)

lemmas objs_ops = objs_addProduct objs_testProduct objs_testProductTimeout objs_deleteProduct
  objs_startMonitoring objs_stopMonitoring objs_others

lemma fire_objs_length: "length (objs st) \<le> length (objs (fire e st))"
proof (cases e)
  case (IntervalElapsed r i j)
  then show ?thesis using objs_monitoringTick [of r i j st] by auto
qed (simp_all add: objs_ops)

lemma fire_fixedPart:
  assumes "r < length (objs st)"
  shows "fixedPart (objs (fire e st) ! r) = fixedPart (objs st ! r)"
proof (cases e)
  case (IntervalElapsed x i j)
  then show ?thesis using objs_monitoringTick [of x i j st] by (auto simp: fixedPart_touch)
qed (use assms in \<open>simp_all add: objs_ops fixedPart_touch nth_append\<close>)

lemma run_objs_length: "length (objs st) \<le> length (objs (run es st))"
proof (induction es arbitrary: st)
  case Nil
  show ?case by simp
next
  case (Cons e es)
  have "length (objs st) \<le> length (objs (fire e st))" by (rule fire_objs_length)
  also have "\<dots> \<le> length (objs (run es (fire e st)))" by (rule Cons.IH)
  finally show ?case by simp
qed

lemma run_fixedPart:
  "r < length (objs st) \<Longrightarrow> fixedPart (objs (run es st) ! r) = fixedPart (objs st ! r)"
proof (induction es arbitrary: st)
  case Nil
  show ?case by simp
next
  case (Cons e es)
  have "r < length (objs (fire e st))"
    using Cons.prems fire_objs_length [of st e] by simp
  then have "fixedPart (objs (run es (fire e st)) ! r) = fixedPart (objs (fire e st) ! r)"
    by (rule Cons.IH)
  then show ?case using Cons.prems by (simp add: fire_fixedPart)
qed

subsection \<open>The activity log\<close>

lemma logsList_addLogEntry:
  "logsList (addLogEntry isoNow message st) =
     take 20 (logEntryHtml (timestamp isoNow) message # logsList st)"
  by (simp add: prim_fields)

lemma fire_logs_bounded: "length (logsList st) \<le> 20 \<Longrightarrow> length (logsList (fire e st)) \<le> 20"
  by (cases e) (simp_all add: prim_fields op_defs Let_def split: option.splits)

lemma run_logs_bounded: "length (logsList st) \<le> 20 \<Longrightarrow> length (logsList (run es st)) \<le> 20"
  by (induction es arbitrary: st) (simp_all add: fire_logs_bounded)

lemma initial_logs_bounded: "length (logsList initial) \<le> 20"
  by (simp add: initial_def templateLogs_def)

text \<open>
  Claim C5. The log of the page is bounded and newest first: \<open>addLogEntry\<close> puts the
  new entry in front and keeps the first twenty children, so what is dropped is the
  oldest entries and only once there are more than twenty; the log never has more than
  twenty entries, after one call and after any events from the initial page. The client
  renders the last twenty lines of the backend's log, the most recent first, so it too
  shows at most twenty.
\<close>

theorem activity_log_bounded_newest_first:
  \<open>logsList (addLogEntry isoNow message st) =
     take 20 (logEntryHtml (timestamp isoNow) message # logsList st)
   \<and> length (logsList (addLogEntry isoNow message st)) \<le> 20
   \<and> length (logsList (run events initial)) \<le> 20
   \<and> sliceLast20Reversed logs = take 20 (rev logs)
   \<and> renderLogs escapeHtml (Some logs) =
       (if logs = [] then [js ''<div class="log-entry">No logs available</div>'']
        else map (\<lambda>logLine. js ''<div class="log-entry '' @ getLogClass logLine @ js ''">'' @
                              escapeHtml logLine @ js ''</div>'')
               (take 20 (rev logs)))
   \<and> length (renderLogs escapeHtml (Some logs)) \<le> 20\<close>
proof -
  have "length (renderLogs escapeHtml (Some logs)) \<le> 20"
    by (simp add: renderLogs_def sliceLast20Reversed_take)
  moreover have "length (logsList (run events initial)) \<le> 20"
    by (rule run_logs_bounded [OF initial_logs_bounded])
  ultimately show ?thesis
    by (simp add: prim_fields renderLogs_def sliceLast20Reversed_take)
qed

lemma fullLog_eq: "fullLog = [[1],[2],[3],[4],[5],[6],[7],[8],[9],[10],[11],[12],[13],[14],[15],[16],[17],[18],[19],[20]]"
  unfolding fullLog_def by code_simp

text \<open>
  Claim C5, at a concrete input: an entry added to a log of twenty entries comes first
  and the last (oldest) entry is gone; of twenty-one lines the client shows the last
  twenty, newest first.
\<close>

theorem activity_log_bounded_newest_first_witness:
  "logsList (addLogEntry exampleIso [0] (initial\<lparr>logsList := fullLog\<rparr>)) =
     logEntryHtml (timestamp exampleIso) [0] # butlast fullLog
   \<and> sliceLast20Reversed ([0::nat] # fullLog) = rev fullLog"
  using activity_log_bounded_newest_first [of exampleIso "[0]" "initial\<lparr>logsList := fullLog\<rparr>" "[]" "[0] # fullLog" id]
  by (simp add: fullLog_eq)

subsection \<open>Creation of products\<close>

lemma addProduct_new_object:
  "objs (addProduct formData nowMs isoNow st) ! length (objs st) =
     \<lparr>id' = nowMs, name = formData ''productName'', url = formData ''productUrl'',
      selector = formData ''productSelector'', expectedText = formData ''expectedText'',
      email = formData ''productEmail'', isActive = True, lastChecked = None,
      createdAt = timestamp isoNow\<rparr>"
  by (simp add: objs_addProduct)

lemma run_after_addProduct:
  "fixedPart (objs (run events (addProduct formData nowMs isoNow st)) ! length (objs st)) =
     fixedPart (objs (addProduct formData nowMs isoNow st) ! length (objs st))"
  by (rule run_fixedPart) (simp add: objs_addProduct)

text \<open>
  Claim C6. The object that \<open>addProduct\<close> creates is appended to \<open>products\<close>
  with \<open>isActive\<close> true and \<open>lastChecked\<close> null, its \<open>createdAt\<close> is the time
  of the creation, and after any events that follow its \<open>createdAt\<close> is still that
  time.
\<close>

theorem addProduct_starts_active_createdAt_fixed:
  "products (addProduct formData nowMs isoNow st) = products st @ [length (objs st)]
   \<and> isActive (objs (addProduct formData nowMs isoNow st) ! length (objs st))
   \<and> lastChecked (objs (addProduct formData nowMs isoNow st) ! length (objs st)) = None
   \<and> createdAt (objs (addProduct formData nowMs isoNow st) ! length (objs st)) = timestamp isoNow
   \<and> createdAt (objs (run events (addProduct formData nowMs isoNow st)) ! length (objs st)) =
       timestamp isoNow"
proof -
  have "createdAt (objs (run events (addProduct formData nowMs isoNow st)) ! length (objs st)) =
        createdAt (fixedPart (objs (run events (addProduct formData nowMs isoNow st)) ! length (objs st)))"
    by (simp only: fixedPart_fields)
  also have "\<dots> = createdAt (objs (addProduct formData nowMs isoNow st) ! length (objs st))"
    by (simp only: run_after_addProduct fixedPart_fields)
  finally show ?thesis
    by (simp add: addProduct_new_object products_addProduct)
qed

lemma initial_fields:
  "length (objs initial) = 2" "products initial = [0, 1]"
  by (simp_all add: initial_def sampleProducts_def)

lemma timestamp_exampleIso: "timestamp exampleIso = js ''2024-01-15 14:31:00''"
  by (simp add: timestamp_def exampleIso_def js_def)

text \<open>
  Claim C6, at a concrete input: a product added to the initial page, then tested (the
  test writes \<open>lastChecked\<close>) and deleted, keeps its \<open>createdAt\<close>.
\<close>

theorem addProduct_starts_active_createdAt_fixed_witness:
  "products (addProduct exampleForm 1705329060000 exampleIso initial) = [0, 1, 2]
   \<and> lastChecked (objs (addProduct exampleForm 1705329060000 exampleIso initial) ! 2) = None
   \<and> createdAt (objs (run [ClickTest 1705329060000, TestTimeout 2 0.7 exampleIso exampleIso,
                            ClickDelete 1705329060000 True]
                        (addProduct exampleForm 1705329060000 exampleIso initial)) ! 2) =
       js ''2024-01-15 14:31:00''"
  using addProduct_starts_active_createdAt_fixed
    [of exampleForm 1705329060000 exampleIso initial
        "[ClickTest 1705329060000, TestTimeout 2 0.7 exampleIso exampleIso, ClickDelete 1705329060000 True]"]
  by (simp add: initial_fields timestamp_exampleIso del: run.simps)

lemma id_fixed_after_creation:
  "id' (objs (run events (addProduct formData nowMs isoNow st)) ! length (objs st)) = nowMs"
proof -
  have "id' (objs (run events (addProduct formData nowMs isoNow st)) ! length (objs st)) =
        id' (fixedPart (objs (run events (addProduct formData nowMs isoNow st)) ! length (objs st)))"
    by (simp only: fixedPart_fields)
  also have "\<dots> = id' (objs (addProduct formData nowMs isoNow st) ! length (objs st))"
    by (simp only: run_after_addProduct fixedPart_fields)
  finally show ?thesis
    by (simp add: addProduct_new_object)
qed

lemma twice_added_fields:
  "objs (run [SubmitForm exampleForm 1705329060000 exampleIso,
              SubmitForm exampleForm 1705329060000 exampleIso] initial) =
     sampleProducts @
     [\<lparr>id' = 1705329060000, name = exampleForm ''productName'', url = exampleForm ''productUrl'',
       selector = exampleForm ''productSelector'', expectedText = exampleForm ''expectedText'',
       email = exampleForm ''productEmail'', isActive = True, lastChecked = None,
       createdAt = timestamp exampleIso\<rparr>,
      \<lparr>id' = 1705329060000, name = exampleForm ''productName'', url = exampleForm ''productUrl'',
       selector = exampleForm ''productSelector'', expectedText = exampleForm ''expectedText'',
       email = exampleForm ''productEmail'', isActive = True, lastChecked = None,
       createdAt = timestamp exampleIso\<rparr>]"
  "products (run [SubmitForm exampleForm 1705329060000 exampleIso,
                  SubmitForm exampleForm 1705329060000 exampleIso] initial) = [0, 1, 2, 3]"
  by (simp_all add: objs_addProduct products_addProduct initial_def sampleProducts_def)

text \<open>
  Claim C7 fails on the code: two products added while \<open>Date.now()\<close> returns the same
  number are two entries of \<open>products\<close> with the same id. The handlers that take an
  id then cannot tell them apart: \<open>products.find\<close> for that id reaches the first of
  the two only, and one confirmed \<open>deleteProduct\<close> for it removes both.
\<close>

theorem same_millisecond_same_id:
  "id' (objs (run [SubmitForm exampleForm 1705329060000 exampleIso,
                   SubmitForm exampleForm 1705329060000 exampleIso] initial) ! 2) =
   id' (objs (run [SubmitForm exampleForm 1705329060000 exampleIso,
                   SubmitForm exampleForm 1705329060000 exampleIso] initial) ! 3)
   \<and> products (run [SubmitForm exampleForm 1705329060000 exampleIso,
                   SubmitForm exampleForm 1705329060000 exampleIso] initial) = [0, 1, 2, 3]
   \<and> findProduct 1705329060000
         (run [SubmitForm exampleForm 1705329060000 exampleIso,
               SubmitForm exampleForm 1705329060000 exampleIso] initial) = Some 2
   \<and> products (deleteProduct 1705329060000 True
         (run [SubmitForm exampleForm 1705329060000 exampleIso,
               SubmitForm exampleForm 1705329060000 exampleIso] initial)) = [0, 1]"
proof (intro conjI)
  show "id' (objs (run [SubmitForm exampleForm 1705329060000 exampleIso,
                   SubmitForm exampleForm 1705329060000 exampleIso] initial) ! 2) =
   id' (objs (run [SubmitForm exampleForm 1705329060000 exampleIso,
                   SubmitForm exampleForm 1705329060000 exampleIso] initial) ! 3)"
    unfolding twice_added_fields by (simp add: sampleProducts_def)
  show "products (run [SubmitForm exampleForm 1705329060000 exampleIso,
                   SubmitForm exampleForm 1705329060000 exampleIso] initial) = [0, 1, 2, 3]"
    by (rule twice_added_fields)
  show "findProduct 1705329060000
         (run [SubmitForm exampleForm 1705329060000 exampleIso,
               SubmitForm exampleForm 1705329060000 exampleIso] initial) = Some 2"
    unfolding findProduct_def twice_added_fields by (simp add: sampleProducts_def)
  show "products (deleteProduct 1705329060000 True
         (run [SubmitForm exampleForm 1705329060000 exampleIso,
               SubmitForm exampleForm 1705329060000 exampleIso] initial)) = [0, 1]"
    unfolding deleteProduct_def by (simp add: prim_fields twice_added_fields sampleProducts_def del: run.simps)
qed

subsection \<open>The monitoring flag and the periodic loop\<close>

lemma loop_fields_unchanged:
  "monitoringActive (addProduct f n i st) = monitoringActive st"
  "monitoringInterval (addProduct f n i st) = monitoringInterval st"
  "intervals (addProduct f n i st) = intervals st"
  "monitoringActive (testProduct k st) = monitoringActive st"
  "monitoringInterval (testProduct k st) = monitoringInterval st"
  "intervals (testProduct k st) = intervals st"
  "monitoringActive (testProductTimeout p r i j st) = monitoringActive st"
  "monitoringInterval (testProductTimeout p r i j st) = monitoringInterval st"
  "intervals (testProductTimeout p r i j st) = intervals st"
  "monitoringActive (deleteProduct k c st) = monitoringActive st"
  "monitoringInterval (deleteProduct k c st) = monitoringInterval st"
  "intervals (deleteProduct k c st) = intervals st"
  "monitoringActive (monitoringTick d i j st) = monitoringActive st"
  "monitoringInterval (monitoringTick d i j st) = monitoringInterval st"
  "intervals (monitoringTick d i j st) = intervals st"
  "monitoringActive (testEmail st) = monitoringActive st"
  "monitoringInterval (testEmail st) = monitoringInterval st"
  "intervals (testEmail st) = intervals st"
  "monitoringActive (testEmailTimeout i st) = monitoringActive st"
  "monitoringInterval (testEmailTimeout i st) = monitoringInterval st"
  "intervals (testEmailTimeout i st) = intervals st"
  "monitoringActive (sampleLogsTimeout i j st) = monitoringActive st"
  "monitoringInterval (sampleLogsTimeout i j st) = monitoringInterval st"
  "intervals (sampleLogsTimeout i j st) = intervals st"
  by (simp_all add: op_defs Let_def prim_fields split: option.splits)

lemma startMonitoring_running: "monitoringActive st \<Longrightarrow> startMonitoring handle isoNow st = st"
  by (simp add: startMonitoring_def)

lemma stopMonitoring_stopped: "\<not> monitoringActive st \<Longrightarrow> stopMonitoring isoNow st = st"
  by (simp add: stopMonitoring_def)

lemma startMonitoring_loop:
  "\<not> monitoringActive st \<Longrightarrow> monitoringActive (startMonitoring handle isoNow st)"
  "\<not> monitoringActive st \<Longrightarrow> monitoringInterval (startMonitoring handle isoNow st) = Some handle"
  "\<not> monitoringActive st \<Longrightarrow> intervals (startMonitoring handle isoNow st) = intervals st @ [handle]"
  by (simp_all add: startMonitoring_def Let_def prim_fields)

lemma stopMonitoring_loop:
  "\<not> monitoringActive (stopMonitoring isoNow st)"
  "monitoringActive st \<Longrightarrow> monitoringInterval st = Some h \<Longrightarrow> h > 0 \<Longrightarrow>
     intervals (stopMonitoring isoNow st) = removeAll h (intervals st)"
  by (simp_all add: stopMonitoring_def Let_def prim_fields split: option.splits)

lemma singleLoop_startMonitoring:
  "singleLoop st \<Longrightarrow> handle > 0 \<Longrightarrow> singleLoop (startMonitoring handle isoNow st)"
  by (cases "monitoringActive st") (simp_all add: startMonitoring_running startMonitoring_loop singleLoop_def)

lemma singleLoop_stopMonitoring: "singleLoop st \<Longrightarrow> singleLoop (stopMonitoring isoNow st)"
proof (cases "monitoringActive st")
  case True
  assume "singleLoop st"
  with True obtain h where "monitoringInterval st = Some h" "h > 0" "intervals st = [h]"
    by (auto simp: singleLoop_def split: option.splits)
  with True show ?thesis
    by (simp add: singleLoop_def stopMonitoring_loop)
next
  case False
  assume "singleLoop st"
  with False show ?thesis by (simp add: stopMonitoring_stopped)
qed

lemma singleLoop_cong:
  "monitoringActive st' = monitoringActive st \<Longrightarrow> monitoringInterval st' = monitoringInterval st \<Longrightarrow>
   intervals st' = intervals st \<Longrightarrow> singleLoop st' = singleLoop st"
  by (simp add: singleLoop_def split: option.splits)

lemma singleLoop_fire:
  assumes "singleLoop st" "browserEvent e"
  shows "singleLoop (fire e st)"
proof (cases e)
  case (ClickStart handle isoNow)
  with assms show ?thesis by (simp add: singleLoop_startMonitoring)
next
  case (ClickStop isoNow)
  with assms show ?thesis by (simp add: singleLoop_stopMonitoring)
next
  case (TestTimeout p r i j)
  have "singleLoop (testProductTimeout p r i j (st\<lparr>pendingTests := remove1 p (pendingTests st)\<rparr>)) =
        singleLoop st"
    by (rule singleLoop_cong) (simp_all add: loop_fields_unchanged)
  with assms TestTimeout show ?thesis by simp
next
  case (TestEmailTimeout i)
  have "singleLoop (testEmailTimeout i (st\<lparr>pendingEmailTests := pendingEmailTests st - 1\<rparr>)) =
        singleLoop st"
    by (rule singleLoop_cong) (simp_all add: loop_fields_unchanged)
  with assms TestEmailTimeout show ?thesis by simp
next
  case (SampleLogsTimeout i j)
  have "singleLoop (sampleLogsTimeout i j (st\<lparr>pendingSampleLogs := False\<rparr>)) = singleLoop st"
    by (rule singleLoop_cong) (simp_all add: loop_fields_unchanged)
  with assms SampleLogsTimeout show ?thesis by simp
next
  case (SubmitForm f n i)
  have "singleLoop (addProduct f n i st) = singleLoop st"
    by (rule singleLoop_cong) (simp_all add: loop_fields_unchanged)
  with assms SubmitForm show ?thesis by simp
next
  case (ClickTest k)
  have "singleLoop (testProduct k st) = singleLoop st"
    by (rule singleLoop_cong) (simp_all add: loop_fields_unchanged)
  with assms ClickTest show ?thesis by simp
next
  case (ClickDelete k c)
  have "singleLoop (deleteProduct k c st) = singleLoop st"
    by (rule singleLoop_cong) (simp_all add: loop_fields_unchanged)
  with assms ClickDelete show ?thesis by simp
next
  case (IntervalElapsed d i j)
  have "singleLoop (monitoringTick d i j st) = singleLoop st"
    by (rule singleLoop_cong) (simp_all add: loop_fields_unchanged)
  with assms IntervalElapsed show ?thesis by simp
next
  case ClickTestEmail
  have "singleLoop (testEmail st) = singleLoop st"
    by (rule singleLoop_cong) (simp_all add: loop_fields_unchanged)
  with assms ClickTestEmail show ?thesis by simp
qed

lemma singleLoop_run:
  "singleLoop st \<Longrightarrow> list_all browserEvent events \<Longrightarrow> singleLoop (run events st)"
  by (induction events arbitrary: st) (simp_all add: singleLoop_fire)

lemma singleLoop_intervals: "singleLoop st \<Longrightarrow> intervals st = [] \<longleftrightarrow> \<not> monitoringActive st"
  by (auto simp: singleLoop_def split: option.splits)

lemma singleLoop_initial: "singleLoop initial"
  by (simp add: singleLoop_def initial_def)

text \<open>
  Claim C9. \<open>startMonitoring\<close> on a running monitor and \<open>stopMonitoring\<close> on a
  stopped one return the state as it is, timers included. From a state where flag and
  timers agree, after any events of a browser they still agree: at most one interval is
  running, none exactly when the flag is off, and after \<open>stopMonitoring\<close> the flag is
  off and no interval is left.
\<close>

theorem monitoring_flag_guards_single_loop:
  assumes "singleLoop st0" and "list_all browserEvent events"
  shows "(monitoringActive st \<longrightarrow> startMonitoring handle isoNow st = st)
   \<and> (\<not> monitoringActive st \<longrightarrow> stopMonitoring isoNow st = st)
   \<and> singleLoop (run events st0)
   \<and> length (intervals (run events st0)) \<le> 1
   \<and> (intervals (run events st0) = [] \<longleftrightarrow> \<not> monitoringActive (run events st0))
   \<and> \<not> monitoringActive (stopMonitoring isoNow (run events st0))
   \<and> intervals (stopMonitoring isoNow (run events st0)) = []"
proof -
  have inv: "singleLoop (run events st0)"
    using assms by (rule singleLoop_run)
  then have one: "length (intervals (run events st0)) \<le> 1"
    by (auto simp: singleLoop_def split: option.splits if_splits)
  have stopped: "\<not> monitoringActive (stopMonitoring isoNow (run events st0))"
    by (rule stopMonitoring_loop)
  have "singleLoop (stopMonitoring isoNow (run events st0))"
    using inv by (rule singleLoop_stopMonitoring)
  with stopped have "intervals (stopMonitoring isoNow (run events st0)) = []"
    by (simp add: singleLoop_intervals)
  with inv one stopped show ?thesis
    by (simp add: startMonitoring_running stopMonitoring_stopped singleLoop_intervals)
qed

text \<open>
  Claim C9, at a concrete input: on the initial page a second start changes nothing,
  a stop before any start changes nothing, two clicks on start leave one interval, and
  the stop after them leaves none.
\<close>

theorem monitoring_flag_guards_single_loop_witness:
  "startMonitoring 2 exampleIso (startMonitoring 1 exampleIso initial) = startMonitoring 1 exampleIso initial
   \<and> stopMonitoring exampleIso initial = initial
   \<and> intervals (run [ClickStart 1 exampleIso, ClickStart 2 exampleIso] initial) = [1]
   \<and> intervals (stopMonitoring exampleIso (run [ClickStart 1 exampleIso, ClickStart 2 exampleIso] initial)) = []"
proof -
  have ev: "list_all browserEvent [ClickStart 1 exampleIso, ClickStart 2 exampleIso]"
    by simp
  have off: "\<not> monitoringActive initial"
    by (simp add: initial_def)
  have on: "monitoringActive (startMonitoring 1 exampleIso initial)"
    using off by (rule startMonitoring_loop)
  have "intervals (run [ClickStart 1 exampleIso, ClickStart 2 exampleIso] initial) = [1]"
    using off on by (simp add: startMonitoring_running startMonitoring_loop) (simp add: initial_def)
  then show ?thesis
    using off on
      monitoring_flag_guards_single_loop [OF singleLoop_initial ev, of "startMonitoring 1 exampleIso initial" 2 exampleIso]
      monitoring_flag_guards_single_loop [OF singleLoop_initial ev, of initial 2 exampleIso]
    by (simp del: run.simps)
qed

subsection \<open>The notifications counter\<close>





lemma counter_fields_unchanged:
  "notificationsSent (testProduct k st) = notificationsSent st"
  "products (testProduct k st) = products st"
  "notificationsSent (testProductTimeout p r i j st) = notificationsSent st"
  "products (testProductTimeout p r i j st) = products st"
  "notificationsSent (monitoringTick d i j st) = notificationsSent st"
  "products (monitoringTick d i j st) = products st"
  "notificationsSent (startMonitoring h i st) = notificationsSent st"
  "products (startMonitoring h i st) = products st"
  "notificationsSent (stopMonitoring i st) = notificationsSent st"
  "products (stopMonitoring i st) = products st"
  "notificationsSent (testEmail st) = notificationsSent st"
  "products (testEmail st) = products st"
  "notificationsSent (testEmailTimeout i st) = notificationsSent st"
  "products (testEmailTimeout i st) = products st"
  "notificationsSent (sampleLogsTimeout i j st) = notificationsSent st"
  "products (sampleLogsTimeout i j st) = products st"
  by (simp_all add: op_defs Let_def prim_fields split: option.splits)












lemma loaded_fields:
  "products (domContentLoaded initial) = [0, 1]"
  "objs (domContentLoaded initial) = sampleProducts"
  "shown (domContentLoaded initial) = []"
  "notificationsSent (domContentLoaded initial) = 1"
  "inactiveCount (domContentLoaded initial) = 1"
  by (simp_all add: domContentLoaded_def prim_fields initial_def sampleProducts_def inactiveCount_def)



subsection \<open>The interval callback\<close>

text \<open>
  The index computed in doubles is inside the array: rounding adds less than \<open>n\<close> to
  the numerator, which is at least \<open>n\<close> below \<open>n * 2 ^ exponent\<close>. For the double
  0.7 and ten products the index is 7 (\<open>floorOfProduct_seven_tenths\<close> below), where
  the exact product has the floor 6.
\<close>

lemma floorlog2_eqI: "2 ^ (b - 1) \<le> p \<Longrightarrow> p < 2 ^ b \<Longrightarrow> b > 0 \<Longrightarrow> floorlog 2 p = b"
  by (rule antisym) (simp_all add: floorlog_le_iff floorlog_geI)

lemma roundTo53_le:
  assumes "p > 0"
  shows "roundTo53 p \<le> p + 2 ^ (floorlog 2 p - 54)"
proof (cases "floorlog 2 p \<le> 53")
  case True
  then show ?thesis by (simp add: roundTo53_def)
next
  case False
  define s where "s = floorlog 2 p - 53"
  have s: "s > 0" "floorlog 2 p - 54 = s - 1" using False by (simp_all add: s_def)
  define q where "q = p div 2 ^ s"
  define r where "r = p mod 2 ^ s"
  have p: "p = q * 2 ^ s + r" unfolding q_def r_def by (rule div_mult_mod_eq [symmetric])
  have two: "(2::nat) ^ s = 2 * 2 ^ (s - 1)"
    using s(1) by (cases s) simp_all
  have "roundTo53 p = (if r > 2 ^ (s - 1) \<or> (r = 2 ^ (s - 1) \<and> odd q) then q + 1 else q) * 2 ^ s"
    using False by (simp add: roundTo53_def Let_def s_def q_def r_def)
  also have "\<dots> \<le> p + 2 ^ (s - 1)"
  proof (cases "r > 2 ^ (s - 1) \<or> (r = 2 ^ (s - 1) \<and> odd q)")
    case True
    then have "2 ^ (s - 1) \<le> r" by auto
    then have "q * 2 ^ s + 2 * 2 ^ (s - 1) \<le> q * 2 ^ s + r + 2 ^ (s - 1)"
      by simp
    then have "(q + 1) * 2 ^ s \<le> p + 2 ^ (s - 1)"
      unfolding p two [symmetric] by (simp only: add_mult_distrib mult_1)
    with True show ?thesis by (simp only: if_True)
  next
    case False
    have "q * 2 ^ s \<le> p + 2 ^ (s - 1)" unfolding p by simp
    with False show ?thesis by (simp only: if_False)
  qed
  finally show ?thesis by (simp add: s)
qed

lemma floorOfProduct_less:
  assumes m53: "mantissa d < 2 ^ 53" and m1: "mantissa d < 2 ^ exponent d" and n: "n > 0"
  shows "floorOfProduct d n < n"
proof -
  define m where "m = mantissa d"
  define e where "e = exponent d"
  define p where "p = m * n"
  have below: "p + n \<le> n * 2 ^ e"
  proof -
    have "m + 1 \<le> 2 ^ e" using m1 by (simp add: m_def e_def)
    then have "(m + 1) * n \<le> 2 ^ e * n" by (rule mult_le_mono1)
    then show ?thesis by (simp add: p_def add_mult_distrib mult.commute)
  qed
  have "roundTo53 p < n * 2 ^ e"
  proof (cases "p = 0")
    case True
    then have "roundTo53 p = 0" by (simp add: roundTo53_def floorlog_def)
    with n show ?thesis by simp
  next
    case False
    then have pos: "p > 0" by simp
    show ?thesis
    proof (cases "floorlog 2 p \<le> 53")
      case True
      then have "roundTo53 p = p" by (simp add: roundTo53_def)
      with below n show ?thesis by simp
    next
      case False
      define s where "s = floorlog 2 p - 53"
      have s: "floorlog 2 p - 54 = s - 1" "floorlog 2 p - 1 = 53 + (s - 1)"
        using False by (simp_all add: s_def)
      have "(2::nat) ^ (floorlog 2 p - 1) \<le> p"
        using floorlog_bounds [of p 2] pos by simp
      then have "(2::nat) ^ (53 + (s - 1)) \<le> p"
        unfolding s(2) .
      also have "p < 2 ^ 53 * n"
        unfolding p_def using m53 n by (simp add: m_def)
      finally have "(2::nat) ^ 53 * 2 ^ (s - 1) < 2 ^ 53 * n"
        by (simp only: power_add)
      then have small: "(2::nat) ^ (s - 1) < n"
        by simp
      have "roundTo53 p \<le> p + 2 ^ (s - 1)"
        using roundTo53_le [OF pos] by (simp only: s(1))
      also have "\<dots> < p + n" using small by simp
      also have "\<dots> \<le> n * 2 ^ e" by (rule below)
      finally show ?thesis .
    qed
  qed
  then have "roundTo53 p div 2 ^ e < n"
    by (simp add: less_mult_imp_div_less)
  then show ?thesis
    by (simp add: floorOfProduct_def p_def m_def e_def)
qed

lemma monitoringTick_none_active:
  "filter (\<lambda>p. isActive (objs st ! p)) (products st) = [] \<Longrightarrow>
   monitoringTick random isoLog isoChecked st = st"
  by (simp add: monitoringTick_def)

lemma monitoringTick_some_active:
  assumes "validDraw random"
    and "filter (\<lambda>p. isActive (objs st ! p)) (products st) \<noteq> []"
  shows "monitoringTick random isoLog isoChecked st =
     (addLogEntry isoLog
        (js ''Checked '' @
         name (objs st ! (filter (\<lambda>p. isActive (objs st ! p)) (products st) !
                 floorOfProduct random (length (filter (\<lambda>p. isActive (objs st ! p)) (products st))))) @
         js '': OUT OF STOCK'') st)
     \<lparr>objs := (objs st)
        [filter (\<lambda>p. isActive (objs st ! p)) (products st) !
           floorOfProduct random (length (filter (\<lambda>p. isActive (objs st ! p)) (products st))) :=
         (objs st ! (filter (\<lambda>p. isActive (objs st ! p)) (products st) !
           floorOfProduct random (length (filter (\<lambda>p. isActive (objs st ! p)) (products st)))))
           \<lparr>lastChecked := Some (timestamp isoChecked)\<rparr>]\<rparr>"
proof -
  define active where "active = filter (\<lambda>p. isActive (objs st ! p)) (products st)"
  have pos: "length active > 0" using assms(2) by (simp add: active_def)
  have "floorOfProduct random (length active) < length active"
    using assms(1) pos by (intro floorOfProduct_less) (simp_all add: validDraw_def)
  with pos show ?thesis
    unfolding monitoringTick_def active_def [symmetric] Let_def
    by (simp add: prim_fields)
qed

lemma chosenProduct_active:
  assumes "validDraw random" and "activeRefs st \<noteq> []"
  shows "chosenProduct random st \<in> set (activeRefs st)"
proof -
  have "floorOfProduct random (length (activeRefs st)) < length (activeRefs st)"
    using assms by (intro floorOfProduct_less) (simp_all add: validDraw_def)
  then show ?thesis by (simp add: chosenProduct_def)
qed

text \<open>
  Claim C3, amended. While monitoring runs, each firing of the interval reads the
  products that are active and checks one of them, the one at the index that
  \<open>Math.floor(Math.random() * n)\<close> gives in doubles: that product, and no other object,
  gets a new \<open>lastChecked\<close>, one entry for it is logged, and \<open>products\<close> is
  unchanged. With no active product, or with monitoring off, nothing happens.
\<close>

theorem interval_checks_one_active_product:
  assumes "singleLoop st" and "validDraw random"
  shows "(\<not> monitoringActive st \<longrightarrow> fire (IntervalElapsed random isoLog isoChecked) st = st)
   \<and> (monitoringActive st \<and> activeRefs st = [] \<longrightarrow>
        fire (IntervalElapsed random isoLog isoChecked) st = st)
   \<and> (monitoringActive st \<and> activeRefs st \<noteq> [] \<longrightarrow>
        chosenProduct random st \<in> set (activeRefs st)
      \<and> objs (fire (IntervalElapsed random isoLog isoChecked) st) =
          (objs st)[chosenProduct random st :=
             (objs st ! chosenProduct random st)\<lparr>lastChecked := Some (timestamp isoChecked)\<rparr>]
      \<and> (q \<noteq> chosenProduct random st \<longrightarrow>
            objs (fire (IntervalElapsed random isoLog isoChecked) st) ! q = objs st ! q)
      \<and> logsList (fire (IntervalElapsed random isoLog isoChecked) st) =
          take 20 (logEntryHtml (timestamp isoLog)
                     (js ''Checked '' @ name (objs st ! chosenProduct random st) @ js '': OUT OF STOCK'')
                   # logsList st)
      \<and> products (fire (IntervalElapsed random isoLog isoChecked) st) = products st)"
proof (intro conjI impI)
  show "fire (IntervalElapsed random isoLog isoChecked) st = st" if "\<not> monitoringActive st"
    using that assms(1) by (simp add: singleLoop_intervals)
  show "fire (IntervalElapsed random isoLog isoChecked) st = st"
    if "monitoringActive st \<and> activeRefs st = []"
    using that by (simp add: monitoringTick_none_active activeRefs_def)
next
  assume run: "monitoringActive st \<and> activeRefs st \<noteq> []"
  then have on: "intervals st \<noteq> []"
    using assms(1) by (simp add: singleLoop_intervals)
  from run have ne: "filter (\<lambda>p. isActive (objs st ! p)) (products st) \<noteq> []"
    by (simp add: activeRefs_def)
  note tick = monitoringTick_some_active [OF assms(2) ne, of isoLog isoChecked,
      folded activeRefs_def, folded chosenProduct_def]
  show "chosenProduct random st \<in> set (activeRefs st)"
    using assms(2) run by (simp add: chosenProduct_active)
  show upd: "objs (fire (IntervalElapsed random isoLog isoChecked) st) =
          (objs st)[chosenProduct random st :=
             (objs st ! chosenProduct random st)\<lparr>lastChecked := Some (timestamp isoChecked)\<rparr>]"
    using on by (simp add: tick)
  show "objs (fire (IntervalElapsed random isoLog isoChecked) st) ! q = objs st ! q"
    if "q \<noteq> chosenProduct random st"
    using that unfolding upd by (simp add: touch_nth)
  show "logsList (fire (IntervalElapsed random isoLog isoChecked) st) =
          take 20 (logEntryHtml (timestamp isoLog)
                     (js ''Checked '' @ name (objs st ! chosenProduct random st) @ js '': OUT OF STOCK'')
                   # logsList st)"
    using on by (simp add: tick prim_fields)
  show "products (fire (IntervalElapsed random isoLog isoChecked) st) = products st"
    using on by (simp add: tick prim_fields)
qed

lemma newProduct_example:
  "objs (addProduct exampleForm 1705329060000 exampleIso (domContentLoaded initial)) =
     sampleProducts @
     [\<lparr>id' = 1705329060000, name = exampleForm ''productName'', url = exampleForm ''productUrl'',
       selector = exampleForm ''productSelector'', expectedText = exampleForm ''expectedText'',
       email = exampleForm ''productEmail'', isActive = True, lastChecked = None,
       createdAt = timestamp exampleIso\<rparr>]"
  by (simp add: objs_addProduct loaded_fields)

lemma loaded_loop:
  "\<not> monitoringActive (domContentLoaded initial)"
  "intervals (domContentLoaded initial) = []"
  "logsList (domContentLoaded initial) = templateLogs"
  by (simp_all add: domContentLoaded_def prim_fields initial_def)

lemma length_sampleProducts: "length sampleProducts = 2"
  by (simp add: sampleProducts_def)

lemma twoActive_unfold:
  "twoActive = startMonitoring 1 exampleIso
     (addProduct exampleForm 1705329060000 exampleIso (domContentLoaded initial))"
  by (simp add: twoActive_def)

lemma twoActive_fields:
  "objs twoActive =
     sampleProducts @
     [\<lparr>id' = 1705329060000, name = exampleForm ''productName'', url = exampleForm ''productUrl'',
       selector = exampleForm ''productSelector'', expectedText = exampleForm ''expectedText'',
       email = exampleForm ''productEmail'', isActive = True, lastChecked = None,
       createdAt = timestamp exampleIso\<rparr>]"
  "products twoActive = [0, 1, 2]"
  "monitoringActive twoActive"
  "intervals twoActive = [1]"
  "monitoringInterval twoActive = Some 1"
  unfolding twoActive_unfold
  by (simp_all add: objs_startMonitoring newProduct_example counter_fields_unchanged
      products_addProduct loaded_fields length_sampleProducts startMonitoring_loop
      loop_fields_unchanged loaded_loop)

lemma twoActive_logs:
  "logsList twoActive = [logEntryHtml (timestamp exampleIso) (js ''Bot monitoring started'')] @ templateLogs"
  unfolding twoActive_unfold
  by (simp add: startMonitoring_def loop_fields_unchanged loaded_loop Let_def prim_fields
      addProduct_def templateLogs_def)

lemma twoActive_activeRefs: "activeRefs twoActive = [0, 2]"
  by (simp add: activeRefs_def twoActive_fields sampleProducts_def)

lemma example_draws:
  "validDraw drawZero" "validDraw drawTwoThirds"
  "floorOfProduct drawZero 2 = 0" "floorOfProduct drawTwoThirds 3 = 2"
proof -
  have bits: "floorlog 2 18014398509481983 = 54"
    by (rule floorlog2_eqI) simp_all
  show "validDraw drawZero" "validDraw drawTwoThirds"
    by (simp_all add: validDraw_def drawZero_def drawTwoThirds_def)
  show "floorOfProduct drawZero 2 = 0"
    by (simp add: floorOfProduct_def roundTo53_def drawZero_def compute_floorlog)
  show "floorOfProduct drawTwoThirds 3 = 2"
    by (simp add: floorOfProduct_def roundTo53_def drawTwoThirds_def bits)
qed

lemma floorOfProduct_seven_tenths:
  "floorOfProduct \<lparr>mantissa = 6305039478318694, exponent = 53\<rparr> 10 = 7"
proof -
  have "floorlog 2 63050394783186940 = 56"
    by (rule floorlog2_eqI) simp_all
  then show ?thesis
    by (simp add: floorOfProduct_def roundTo53_def)
qed

lemma twoActive_chosen: "chosenProduct drawZero twoActive = 0"
proof -
  have "length (activeRefs twoActive) = 2" by (simp add: twoActive_activeRefs)
  then have "chosenProduct drawZero twoActive = activeRefs twoActive ! 0"
    by (simp only: chosenProduct_def example_draws)
  then show ?thesis by (simp add: twoActive_activeRefs)
qed

lemma threeActive_unfold:
  "threeActive = startMonitoring 1 exampleIso
     (addProduct exampleForm 1705329060001 exampleIso
       (addProduct exampleForm 1705329060000 exampleIso (domContentLoaded initial)))"
  by (simp add: threeActive_def)

lemma threeActive_fields:
  "objs threeActive =
     sampleProducts @
     [\<lparr>id' = 1705329060000, name = exampleForm ''productName'', url = exampleForm ''productUrl'',
       selector = exampleForm ''productSelector'', expectedText = exampleForm ''expectedText'',
       email = exampleForm ''productEmail'', isActive = True, lastChecked = None,
       createdAt = timestamp exampleIso\<rparr>,
      \<lparr>id' = 1705329060001, name = exampleForm ''productName'', url = exampleForm ''productUrl'',
       selector = exampleForm ''productSelector'', expectedText = exampleForm ''expectedText'',
       email = exampleForm ''productEmail'', isActive = True, lastChecked = None,
       createdAt = timestamp exampleIso\<rparr>]"
  "products threeActive = [0, 1, 2, 3]"
  "monitoringActive threeActive"
  "intervals threeActive = [1]"
  "monitoringInterval threeActive = Some 1"
  unfolding threeActive_unfold
  by (simp_all add: objs_startMonitoring objs_addProduct newProduct_example counter_fields_unchanged
      products_addProduct loaded_fields length_sampleProducts startMonitoring_loop
      loop_fields_unchanged loaded_loop)

lemma threeActive_activeRefs: "activeRefs threeActive = [0, 2, 3]"
  by (simp add: activeRefs_def threeActive_fields sampleProducts_def)

lemma threeActive_singleLoop: "singleLoop threeActive"
  by (simp add: singleLoop_def threeActive_fields)

lemma threeActive_chosen: "chosenProduct drawTwoThirds threeActive = 3"
proof -
  have "length (activeRefs threeActive) = 3" by (simp add: threeActive_activeRefs)
  then have "chosenProduct drawTwoThirds threeActive = activeRefs threeActive ! 2"
    by (simp only: chosenProduct_def example_draws)
  then show ?thesis by (simp add: threeActive_activeRefs)
qed

text \<open>
  Claim C3, amended, at a concrete input: three products are active and
  \<open>Math.random()\<close> returns 0.6666666666666666. The product of that double and 3 is
  the double 2, so the index is 2 (the exact product would give 1): the third active
  product is checked and the second is left as it was.
\<close>

theorem interval_checks_one_active_product_witness:
  "validDraw drawTwoThirds
   \<and> floorOfProduct drawTwoThirds 3 = 2
   \<and> chosenProduct drawTwoThirds threeActive = 3
   \<and> lastChecked (objs (fire (IntervalElapsed drawTwoThirds exampleIso exampleIso) threeActive) ! 3) =
       Some (js ''2024-01-15 14:31:00'')
   \<and> objs (fire (IntervalElapsed drawTwoThirds exampleIso exampleIso) threeActive) ! 2 =
       objs threeActive ! 2
   \<and> products (fire (IntervalElapsed drawTwoThirds exampleIso exampleIso) threeActive) = [0, 1, 2, 3]"
  using interval_checks_one_active_product
    [OF threeActive_singleLoop example_draws(2), of exampleIso exampleIso 2]
  by (simp add: threeActive_chosen threeActive_activeRefs threeActive_fields timestamp_exampleIso
      example_draws touch_nth nth_append length_sampleProducts del: fire.simps)

text \<open>
  Claim C3 as stated fails: monitoring runs, products 0 and 2 are active, and a cycle
  (\<open>Math.random()\<close> returns 0) checks product 0 only: product 2 has never been checked
  before and is still unchecked after it, and the log has the one new entry.
\<close>

theorem second_active_product_not_checked:
  "monitoringActive twoActive
   \<and> activeRefs twoActive = [0, 2]
   \<and> lastChecked (objs twoActive ! 2) = None
   \<and> lastChecked (objs (fire (IntervalElapsed drawZero exampleIso exampleIso) twoActive) ! 2) = None
   \<and> lastChecked (objs (fire (IntervalElapsed drawZero exampleIso exampleIso) twoActive) ! 0) =
       Some (js ''2024-01-15 14:31:00'')
   \<and> logsList (fire (IntervalElapsed drawZero exampleIso exampleIso) twoActive) =
       logEntryHtml (js ''2024-01-15 14:31:00'') (js ''Checked '' @ js ''MacBook Pro M1'' @ js '': OUT OF STOCK'')
       # logsList twoActive"
proof -
  have ne: "filter (\<lambda>p. isActive (objs twoActive ! p)) (products twoActive) \<noteq> []"
    using twoActive_activeRefs by (simp add: activeRefs_def)
  have len: "length (logsList twoActive) < 20"
    by (simp add: twoActive_logs templateLogs_def)
  have tick: "fire (IntervalElapsed drawZero exampleIso exampleIso) twoActive =
      (addLogEntry exampleIso (js ''Checked '' @ name (objs twoActive ! 0) @ js '': OUT OF STOCK'') twoActive)
      \<lparr>objs := (objs twoActive)[0 := (objs twoActive ! 0)\<lparr>lastChecked := Some (timestamp exampleIso)\<rparr>]\<rparr>"
    using monitoringTick_some_active [OF example_draws(1) ne, of exampleIso exampleIso,
        folded activeRefs_def, folded chosenProduct_def]
    by (simp add: twoActive_fields(4) twoActive_chosen)
  show ?thesis
    unfolding tick using len
    by (simp add: twoActive_fields twoActive_activeRefs prim_fields sampleProducts_def
        timestamp_exampleIso touch_nth nth_append)
qed

subsection \<open>The test of a product\<close>

lemma dashboard_eqI:
  fixes a b :: dashboard
  assumes "objs a = objs b" "products a = products b" "monitoringActive a = monitoringActive b"
    "monitoringInterval a = monitoringInterval b" "intervals a = intervals b"
    "pendingTests a = pendingTests b" "pendingEmailTests a = pendingEmailTests b"
    "pendingSampleLogs a = pendingSampleLogs b" "logsList a = logsList b"
    "totalProducts a = totalProducts b" "activeProducts a = activeProducts b"
    "notificationsSent a = notificationsSent b" "monitoringStatus a = monitoringStatus b"
    "monitoringStatusColor a = monitoringStatusColor b" "shown a = shown b"
  shows "a = b"
  using assms by (cases a, cases b) simp

text \<open>
  Claim C4, amended. The check of the dashboard classifies by the random number alone:
  in stock exactly when it is greater than 0.5, whatever the product's text and marker
  are. For a given random number the run is determined, and it changes nothing but what
  records the outcome: the notification shown, the log (one entry in front, twenty
  kept) and \<open>lastChecked\<close> of the tested product. The array \<open>products\<close>, every
  other field of every product object, the monitoring flag, the timers and the counters
  are as before.
\<close>

theorem testProduct_outcome_is_the_random_draw:
  "isInStock random = (random > 0.5)
   \<and> testProductTimeout product random isoLog isoChecked st =
     st\<lparr>shown := shown st @
          [(if random > 0.5
            then name (objs st ! product) @ js '' is IN STOCK! '' @ [0xD83C, 0xDF89]
            else name (objs st ! product) @ js '' is out of stock.'',
            if random > 0.5 then js ''success'' else js ''info'')],
        logsList := take 20
          (logEntryHtml (timestamp isoLog)
             (js ''Tested '' @ name (objs st ! product) @ js '': '' @
              (if random > 0.5 then js ''IN STOCK'' else js ''OUT OF STOCK''))
           # logsList st),
        objs := (objs st)[product := (objs st ! product)\<lparr>lastChecked := Some (timestamp isoChecked)\<rparr>]\<rparr>
   \<and> products (testProductTimeout product random isoLog isoChecked st) = products st
   \<and> length (objs (testProductTimeout product random isoLog isoChecked st)) = length (objs st)
   \<and> fixedPart (objs (testProductTimeout product random isoLog isoChecked st) ! q) =
       fixedPart (objs st ! q)
   \<and> monitoringActive (testProductTimeout product random isoLog isoChecked st) = monitoringActive st
   \<and> intervals (testProductTimeout product random isoLog isoChecked st) = intervals st
   \<and> notificationsSent (testProductTimeout product random isoLog isoChecked st) =
       notificationsSent st"
proof (intro conjI)
  show "isInStock random = (random > 0.5)"
    by (simp add: isInStock_def)
  show "testProductTimeout product random isoLog isoChecked st =
     st\<lparr>shown := shown st @
          [(if random > 0.5
            then name (objs st ! product) @ js '' is IN STOCK! '' @ [0xD83C, 0xDF89]
            else name (objs st ! product) @ js '' is out of stock.'',
            if random > 0.5 then js ''success'' else js ''info'')],
        logsList := take 20
          (logEntryHtml (timestamp isoLog)
             (js ''Tested '' @ name (objs st ! product) @ js '': '' @
              (if random > 0.5 then js ''IN STOCK'' else js ''OUT OF STOCK''))
           # logsList st),
        objs := (objs st)[product := (objs st ! product)\<lparr>lastChecked := Some (timestamp isoChecked)\<rparr>]\<rparr>"
    by (rule dashboard_eqI) (simp_all add: testProductTimeout_def Let_def prim_fields isInStock_def)
  show "products (testProductTimeout product random isoLog isoChecked st) = products st"
    by (simp add: counter_fields_unchanged)
  show "length (objs (testProductTimeout product random isoLog isoChecked st)) = length (objs st)"
    by (simp add: objs_testProductTimeout)
  show "fixedPart (objs (testProductTimeout product random isoLog isoChecked st) ! q) =
       fixedPart (objs st ! q)"
    by (simp add: objs_testProductTimeout fixedPart_touch)
  show "monitoringActive (testProductTimeout product random isoLog isoChecked st) = monitoringActive st"
    by (simp add: loop_fields_unchanged)
  show "intervals (testProductTimeout product random isoLog isoChecked st) = intervals st"
    by (simp add: loop_fields_unchanged)
  show "notificationsSent (testProductTimeout product random isoLog isoChecked st) =
       notificationsSent st"
    by (simp add: counter_fields_unchanged)
qed

lemma loaded_findProduct: "findProduct 1 (domContentLoaded initial) = Some 0"
  by (simp add: findProduct_def loaded_fields sampleProducts_def)

lemma loaded_pending: "pendingTests (domContentLoaded initial) = []"
  by (simp add: domContentLoaded_def prim_fields initial_def)

lemma testing_state:
  "pendingTests (testProduct 1 (domContentLoaded initial)) = [0]"
  "objs (testProduct 1 (domContentLoaded initial)) = sampleProducts"
  "logsList (testProduct 1 (domContentLoaded initial)) = templateLogs"
  "products (testProduct 1 (domContentLoaded initial)) = [0, 1]"
  by (simp_all add: testProduct_def loaded_findProduct prim_fields loaded_fields loaded_loop
      loaded_pending)

lemma js_append: "js a @ js b = js (a @ b)"
  by (simp add: js_def)

text \<open>
  Claim C4, amended, at a concrete input: the first sample product tested with the
  random number 0.7.
\<close>

theorem testProduct_outcome_is_the_random_draw_witness:
  "hd (logsList (testProductTimeout 0 0.7 exampleIso exampleIso (testProduct 1 (domContentLoaded initial)))) =
     logEntryHtml (js ''2024-01-15 14:31:00'') (js ''Tested MacBook Pro M1: IN STOCK'')
   \<and> lastChecked (objs (testProductTimeout 0 0.7 exampleIso exampleIso (testProduct 1 (domContentLoaded initial))) ! 0) =
     Some (js ''2024-01-15 14:31:00'')
   \<and> products (testProductTimeout 0 0.7 exampleIso exampleIso (testProduct 1 (domContentLoaded initial))) = [0, 1]"
  using testProduct_outcome_is_the_random_draw
    [of "0.7" 0 exampleIso exampleIso "testProduct 1 (domContentLoaded initial)"]
  by (simp add: testing_state sampleProducts_def timestamp_exampleIso js_append)

text \<open>
  Claim C4 as stated fails: two runs of the test of the same product from the same
  state, one with the random number 0.7 and one with 0.3, log \<open>IN STOCK\<close> and
  \<open>OUT OF STOCK\<close>.
\<close>

theorem same_product_two_classifications:
  "logsList (run [ClickTest 1, TestTimeout 0 0.7 exampleIso exampleIso] (domContentLoaded initial)) =
     logEntryHtml (js ''2024-01-15 14:31:00'') (js ''Tested MacBook Pro M1: IN STOCK'') # templateLogs
   \<and> logsList (run [ClickTest 1, TestTimeout 0 0.3 exampleIso exampleIso] (domContentLoaded initial)) =
     logEntryHtml (js ''2024-01-15 14:31:00'') (js ''Tested MacBook Pro M1: OUT OF STOCK'') # templateLogs
   \<and> isInStock 0.7 \<and> \<not> isInStock 0.3"
  by (simp add: testing_state testProductTimeout_def Let_def prim_fields isInStock_def
      sampleProducts_def timestamp_exampleIso js_append templateLogs_def)

section \<open>Properties of the dashboard client\<close>

subsection \<open>Trimming\<close>

lemma rev_dropWhile_rev_split:
  "rev (dropWhile P (rev t)) @ rev (takeWhile P (rev t)) = t"
proof -
  have "rev (takeWhile P (rev t) @ dropWhile P (rev t)) = rev (rev t)"
    by (simp only: takeWhile_dropWhile_id)
  then show ?thesis by (simp only: rev_append rev_rev_ident)
qed

lemma trimWith_decompose:
  "s = takeWhile ws s @ trimWith ws s @ rev (takeWhile ws (rev (dropWhile ws s)))"
proof -
  have "takeWhile ws s @ dropWhile ws s = s" by (rule takeWhile_dropWhile_id)
  moreover have "trimWith ws s @ rev (takeWhile ws (rev (dropWhile ws s))) = dropWhile ws s"
    unfolding trimWith_def by (rule rev_dropWhile_rev_split)
  ultimately show ?thesis by simp
qed

lemma trimWith_cut_is_space:
  "list_all ws (takeWhile ws s)" "list_all ws (rev (takeWhile ws (rev (dropWhile ws s))))"
  by (auto simp: list_all_iff dest: set_takeWhileD)

lemma trimWith_last:
  assumes "trimWith ws s \<noteq> []"
  shows "\<not> ws (last (trimWith ws s))"
proof -
  from assms have ne: "dropWhile ws (rev (dropWhile ws s)) \<noteq> []"
    unfolding trimWith_def by (simp only: rev_is_Nil_conv not_False_eq_True)
  then have "\<not> ws (hd (dropWhile ws (rev (dropWhile ws s))))" by (rule hd_dropWhile)
  moreover have "last (trimWith ws s) = hd (dropWhile ws (rev (dropWhile ws s)))"
    unfolding trimWith_def using ne by (simp only: last_rev)
  ultimately show ?thesis by simp
qed

lemma trimWith_hd:
  assumes "trimWith ws s \<noteq> []"
  shows "\<not> ws (hd (trimWith ws s))"
proof -
  have split: "trimWith ws s @ rev (takeWhile ws (rev (dropWhile ws s))) = dropWhile ws s"
    unfolding trimWith_def by (rule rev_dropWhile_rev_split)
  with assms have ne: "dropWhile ws s \<noteq> []" by (metis append_is_Nil_conv)
  then have "\<not> ws (hd (dropWhile ws s))" by (rule hd_dropWhile)
  moreover have "hd (dropWhile ws s) = hd (trimWith ws s)"
    using assms split by (metis hd_append2)
  ultimately show ?thesis by simp
qed

lemma trimWith_Nil_iff: "trimWith ws s = [] \<longleftrightarrow> list_all ws s"
proof
  assume "trimWith ws s = []"
  then have "s = takeWhile ws s @ rev (takeWhile ws (rev (dropWhile ws s)))"
    using trimWith_decompose [of s ws] by simp
  then show "list_all ws s"
    using trimWith_cut_is_space [of ws s] by (metis list_all_append)
next
  assume "list_all ws s"
  then have "dropWhile ws s = []" by (simp add: list_all_iff)
  then show "trimWith ws s = []" by (simp only: trimWith_def rev.simps dropWhile.simps)
qed

subsection \<open>The regular expression for e-mail addresses\<close>

lemma afterPiece_Once_iff:
  "r \<in> set (afterPiece (Once a) s) \<longleftrightarrow> (\<exists>c. s = c # r \<and> matchAtom a c)"
  by (cases s) auto

lemma afterPiece_OneOrMore_iff:
  "r \<in> set (afterPiece (OneOrMore a) s) \<longleftrightarrow>
     (\<exists>p. p \<noteq> [] \<and> s = p @ r \<and> list_all (matchAtom a) p)"
proof (induction s)
  case Nil
  show ?case by simp
next
  case (Cons c cs)
  show ?case
  proof (cases "matchAtom a c")
    case True
    have "r \<in> set (afterPiece (OneOrMore a) (c # cs)) \<longleftrightarrow>
          r = cs \<or> (\<exists>p. p \<noteq> [] \<and> cs = p @ r \<and> list_all (matchAtom a) p)"
      using True Cons.IH by auto
    also have "\<dots> \<longleftrightarrow> (\<exists>p. p \<noteq> [] \<and> c # cs = p @ r \<and> list_all (matchAtom a) p)"
    proof
      assume "r = cs \<or> (\<exists>p. p \<noteq> [] \<and> cs = p @ r \<and> list_all (matchAtom a) p)"
      then show "\<exists>p. p \<noteq> [] \<and> c # cs = p @ r \<and> list_all (matchAtom a) p"
      proof
        assume "r = cs"
        with True have "[c] \<noteq> [] \<and> c # cs = [c] @ r \<and> list_all (matchAtom a) [c]" by simp
        then show ?thesis by blast
      next
        assume "\<exists>p. p \<noteq> [] \<and> cs = p @ r \<and> list_all (matchAtom a) p"
        then obtain p where "p \<noteq> []" "cs = p @ r" "list_all (matchAtom a) p" by blast
        with True have "c # p \<noteq> [] \<and> c # cs = (c # p) @ r \<and> list_all (matchAtom a) (c # p)"
          by simp
        then show ?thesis by blast
      qed
    next
      assume "\<exists>p. p \<noteq> [] \<and> c # cs = p @ r \<and> list_all (matchAtom a) p"
      then obtain p where p: "p \<noteq> []" "c # cs = p @ r" "list_all (matchAtom a) p" by blast
      then obtain p' where p': "p = c # p'" "cs = p' @ r"
        by (cases p) auto
      show "r = cs \<or> (\<exists>p. p \<noteq> [] \<and> cs = p @ r \<and> list_all (matchAtom a) p)"
      proof (cases "p' = []")
        case True
        with p' show ?thesis by simp
      next
        case False
        with p p' show ?thesis by auto
      qed
    qed
    finally show ?thesis .
  next
    case False
    have "\<not> (\<exists>p. p \<noteq> [] \<and> c # cs = p @ r \<and> list_all (matchAtom a) p)"
    proof
      assume "\<exists>p. p \<noteq> [] \<and> c # cs = p @ r \<and> list_all (matchAtom a) p"
      then obtain p where "p \<noteq> []" "c # cs = p @ r" "list_all (matchAtom a) p" by blast
      then have "matchAtom a c" by (cases p) auto
      with False show False by simp
    qed
    with False show ?thesis by simp
  qed
qed

lemma afterPieces_Cons_iff:
  "r \<in> set (afterPieces (p # ps) s) \<longleftrightarrow> (\<exists>m \<in> set (afterPiece p s). r \<in> set (afterPieces ps m))"
  by auto

lemma matchAtom_class: "list_all (matchAtom (NotOneOf spaceOrAt)) p \<longleftrightarrow>
   list_all (\<lambda>c. \<not> isWhiteSpace c \<and> c \<noteq> of_char CHR ''@'') p"
  by (simp add: list_all_iff spaceOrAt_def)

lemma test_emailRegex_iff: "test emailRegex s \<longleftrightarrow> emailShape s"
proof
  assume "test emailRegex s"
  then obtain r1 r2 r3 r4 where
    1: "r1 \<in> set (afterPiece (OneOrMore (NotOneOf spaceOrAt)) s)" and
    2: "r2 \<in> set (afterPiece (Once (Lit (of_char CHR ''@''))) r1)" and
    3: "r3 \<in> set (afterPiece (OneOrMore (NotOneOf spaceOrAt)) r2)" and
    4: "r4 \<in> set (afterPiece (Once (Lit (of_char CHR ''.''))) r3)" and
    5: "[] \<in> set (afterPiece (OneOrMore (NotOneOf spaceOrAt)) r4)"
    unfolding test_def emailRegex_def afterPieces_Cons_iff by auto
  from 1 obtain p1 where p1: "p1 \<noteq> []" "s = p1 @ r1" "list_all (matchAtom (NotOneOf spaceOrAt)) p1"
    unfolding afterPiece_OneOrMore_iff by blast
  from 2 have r1: "r1 = of_char CHR ''@'' # r2"
    unfolding afterPiece_Once_iff by simp
  from 3 obtain p2 where p2: "p2 \<noteq> []" "r2 = p2 @ r3" "list_all (matchAtom (NotOneOf spaceOrAt)) p2"
    unfolding afterPiece_OneOrMore_iff by blast
  from 4 have r3: "r3 = of_char CHR ''.'' # r4"
    unfolding afterPiece_Once_iff by simp
  from 5 obtain p3 where p3: "p3 \<noteq> []" "r4 = p3 @ []" "list_all (matchAtom (NotOneOf spaceOrAt)) p3"
    unfolding afterPiece_OneOrMore_iff by blast
  have "s = p1 @ [of_char CHR ''@''] @ p2 @ [of_char CHR ''.''] @ p3"
    using p1(2) r1 p2(2) r3 p3(2) by simp
  moreover have "list_all (\<lambda>c. \<not> isWhiteSpace c \<and> c \<noteq> of_char CHR ''@'') (p1 @ p2 @ p3)"
    using p1(3) p2(3) p3(3) by (simp add: matchAtom_class)
  ultimately show "emailShape s"
    unfolding emailShape_def using p1(1) p2(1) p3(1) by blast
next
  assume "emailShape s"
  then obtain p1 p2 p3 where
    s: "s = p1 @ [of_char CHR ''@''] @ p2 @ [of_char CHR ''.''] @ p3" and
    ne: "p1 \<noteq> []" "p2 \<noteq> []" "p3 \<noteq> []" and
    cls: "list_all (\<lambda>c. \<not> isWhiteSpace c \<and> c \<noteq> of_char CHR ''@'') (p1 @ p2 @ p3)"
    unfolding emailShape_def by blast
  from cls have m: "list_all (matchAtom (NotOneOf spaceOrAt)) p1"
    "list_all (matchAtom (NotOneOf spaceOrAt)) p2" "list_all (matchAtom (NotOneOf spaceOrAt)) p3"
    by (simp_all add: matchAtom_class)
  have 5: "[] \<in> set (afterPiece (OneOrMore (NotOneOf spaceOrAt)) p3)"
    unfolding afterPiece_OneOrMore_iff using ne m by auto
  have 4: "p3 \<in> set (afterPiece (Once (Lit (of_char CHR ''.''))) (of_char CHR ''.'' # p3))"
    by simp
  have 3: "of_char CHR ''.'' # p3 \<in> set (afterPiece (OneOrMore (NotOneOf spaceOrAt)) (p2 @ of_char CHR ''.'' # p3))"
    unfolding afterPiece_OneOrMore_iff using ne m by blast
  have 2: "p2 @ of_char CHR ''.'' # p3 \<in> set (afterPiece (Once (Lit (of_char CHR ''@'')))
             (of_char CHR ''@'' # p2 @ of_char CHR ''.'' # p3))"
    by simp
  have 1: "of_char CHR ''@'' # p2 @ of_char CHR ''.'' # p3 \<in> set (afterPiece (OneOrMore (NotOneOf spaceOrAt)) s)"
    unfolding afterPiece_OneOrMore_iff s using ne m by auto
  show "test emailRegex s"
    unfolding test_def emailRegex_def afterPieces_Cons_iff
    using 1 2 3 4 5 by (auto simp del: afterPiece.simps)
qed

subsection \<open>The add-product form\<close>

lemma trim_Nil_iff: "trim s = [] \<longleftrightarrow> list_all isWhiteSpace s"
  by (simp add: trim_def trimWith_Nil_iff)

lemma handleAddProduct_present:
  assumes "formData ''productName'' = Some n" "formData ''productUrl'' = Some u"
    "formData ''productSelector'' = Some s" "formData ''expectedText'' = Some t"
    "formData ''productEmail'' = Some m"
  shows "handleAddProduct urlParses formData =
     (if trim n = [] \<or> trim u = [] \<or> trim s = [] \<or> trim t = [] \<or> trim m = []
      then Rejected (js ''Please fill in all fields'')
      else if \<not> urlParses (trim u) then Rejected (js ''Please enter a valid URL'')
      else if \<not> emailShape (trim m) then Rejected (js ''Please enter a valid email address'')
      else Posted [(''name'', trim n), (''url'', trim u), (''selector'', trim s),
                   (''expected_text'', trim t), (''email'', trim m)])"
  unfolding handleAddProduct_def assms test_emailRegex_iff by simp

lemma handleAddProduct_missing:
  assumes "formData ''productName'' = None \<or> formData ''productUrl'' = None \<or>
    formData ''productSelector'' = None \<or> formData ''expectedText'' = None \<or>
    formData ''productEmail'' = None"
  shows "handleAddProduct urlParses formData = TypeError"
  using assms unfolding handleAddProduct_def by (auto split: option.splits)

text \<open>
  Claim C8. \<open>handleAddProduct\<close> sends the request only for a well-formed form. With
  a field missing it ends in the exception; with the five fields present it returns
  after an error notification, sending nothing, when a field is empty or only white
  space, when the trimmed URL does not parse, or when the trimmed e-mail address has not
  the shape local\<open>@\<close>domain\<open>.\<close>tld; otherwise it posts the five trimmed values.
\<close>

theorem handleAddProduct_posts_only_wellformed:
  "(formData ''productName'' = None \<or> formData ''productUrl'' = None \<or>
    formData ''productSelector'' = None \<or> formData ''expectedText'' = None \<or>
    formData ''productEmail'' = None \<longrightarrow>
      handleAddProduct urlParses formData = TypeError)
   \<and> (formData ''productName'' = Some n \<and> formData ''productUrl'' = Some u \<and>
      formData ''productSelector'' = Some s \<and> formData ''expectedText'' = Some t \<and>
      formData ''productEmail'' = Some m \<longrightarrow>
        (list_all isWhiteSpace n \<or> list_all isWhiteSpace u \<or> list_all isWhiteSpace s \<or>
         list_all isWhiteSpace t \<or> list_all isWhiteSpace m \<longrightarrow>
           handleAddProduct urlParses formData = Rejected (js ''Please fill in all fields''))
      \<and> (\<not> (list_all isWhiteSpace n \<or> list_all isWhiteSpace u \<or> list_all isWhiteSpace s \<or>
             list_all isWhiteSpace t \<or> list_all isWhiteSpace m) \<longrightarrow>
           (\<not> urlParses (trim u) \<longrightarrow>
              handleAddProduct urlParses formData = Rejected (js ''Please enter a valid URL''))
         \<and> (urlParses (trim u) \<and> \<not> emailShape (trim m) \<longrightarrow>
              handleAddProduct urlParses formData = Rejected (js ''Please enter a valid email address''))
         \<and> (urlParses (trim u) \<and> emailShape (trim m) \<longrightarrow>
              handleAddProduct urlParses formData =
                Posted [(''name'', trim n), (''url'', trim u), (''selector'', trim s),
                        (''expected_text'', trim t), (''email'', trim m)])))"
proof (intro conjI impI)
  assume "formData ''productName'' = None \<or> formData ''productUrl'' = None \<or>
    formData ''productSelector'' = None \<or> formData ''expectedText'' = None \<or>
    formData ''productEmail'' = None"
  then show "handleAddProduct urlParses formData = TypeError"
    by (rule handleAddProduct_missing)
next
  assume present: "formData ''productName'' = Some n \<and> formData ''productUrl'' = Some u \<and>
      formData ''productSelector'' = Some s \<and> formData ''expectedText'' = Some t \<and>
      formData ''productEmail'' = Some m"
  then have eq: "handleAddProduct urlParses formData =
     (if trim n = [] \<or> trim u = [] \<or> trim s = [] \<or> trim t = [] \<or> trim m = []
      then Rejected (js ''Please fill in all fields'')
      else if \<not> urlParses (trim u) then Rejected (js ''Please enter a valid URL'')
      else if \<not> emailShape (trim m) then Rejected (js ''Please enter a valid email address'')
      else Posted [(''name'', trim n), (''url'', trim u), (''selector'', trim s),
                   (''expected_text'', trim t), (''email'', trim m)])"
    by (intro handleAddProduct_present) simp_all
  {
    assume "list_all isWhiteSpace n \<or> list_all isWhiteSpace u \<or> list_all isWhiteSpace s \<or>
         list_all isWhiteSpace t \<or> list_all isWhiteSpace m"
    then show "handleAddProduct urlParses formData = Rejected (js ''Please fill in all fields'')"
      unfolding eq by (simp add: trim_Nil_iff)
  }
  assume filled: "\<not> (list_all isWhiteSpace n \<or> list_all isWhiteSpace u \<or> list_all isWhiteSpace s \<or>
             list_all isWhiteSpace t \<or> list_all isWhiteSpace m)"
  {
    assume "\<not> urlParses (trim u)"
    with filled show "handleAddProduct urlParses formData = Rejected (js ''Please enter a valid URL'')"
      unfolding eq by (simp add: trim_Nil_iff)
  }
  {
    assume "urlParses (trim u) \<and> \<not> emailShape (trim m)"
    with filled show "handleAddProduct urlParses formData = Rejected (js ''Please enter a valid email address'')"
      unfolding eq by (simp add: trim_Nil_iff)
  }
  {
    assume "urlParses (trim u) \<and> emailShape (trim m)"
    with filled show "handleAddProduct urlParses formData =
                Posted [(''name'', trim n), (''url'', trim u), (''selector'', trim s),
                        (''expected_text'', trim t), (''email'', trim m)]"
      unfolding eq by (simp add: trim_Nil_iff)
  }
qed

lemma exampleSubmission_fields:
  "exampleSubmission ''productName'' = Some ([32, 32] @ js ''Kettle'' @ [32, 10])"
  "exampleSubmission ''productUrl'' = Some ([32, 32] @ js ''https://shop.example.com/kettle'' @ [32, 10])"
  "exampleSubmission ''productSelector'' = Some ([32, 32] @ js ''.stock'' @ [32, 10])"
  "exampleSubmission ''expectedText'' = Some ([32, 32] @ js ''Sold out'' @ [32, 10])"
  "exampleSubmission ''productEmail'' = Some ([32, 32] @ js ''me@example.com'' @ [32, 10])"
  by (simp_all add: exampleSubmission_def exampleForm_def js_def)

lemma example_trims:
  "trim ([32, 32] @ js ''Kettle'' @ [32, 10]) = js ''Kettle''"
  "trim ([32, 32] @ js ''https://shop.example.com/kettle'' @ [32, 10]) = js ''https://shop.example.com/kettle''"
  "trim ([32, 32] @ js ''.stock'' @ [32, 10]) = js ''.stock''"
  "trim ([32, 32] @ js ''Sold out'' @ [32, 10]) = js ''Sold out''"
  "trim ([32, 32] @ js ''me@example.com'' @ [32, 10]) = js ''me@example.com''"
  "trim (js ''me@example'') = js ''me@example''"
  by (simp_all add: trim_def trimWith_def isWhiteSpace_def js_def)

lemma example_checks:
  "exampleUrlParses (js ''https://shop.example.com/kettle'')"
  "emailShape (js ''me@example.com'')"
  "\<not> emailShape (js ''me@example'')"
  unfolding test_emailRegex_iff [symmetric]
  by (simp_all add: exampleUrlParses_def test_def emailRegex_def spaceOrAt_def isWhiteSpace_def js_def)

text \<open>
  Claim C8, at a concrete input: the example form is posted with its values trimmed;
  with an e-mail address without a dot after the \<open>@\<close> it is rejected; without the
  e-mail field nothing is sent.
\<close>

theorem handleAddProduct_posts_only_wellformed_witness:
  "handleAddProduct exampleUrlParses exampleSubmission =
     Posted [(''name'', js ''Kettle''), (''url'', js ''https://shop.example.com/kettle''),
             (''selector'', js ''.stock''), (''expected_text'', js ''Sold out''),
             (''email'', js ''me@example.com'')]
   \<and> handleAddProduct exampleUrlParses (exampleSubmission(''productEmail'' := Some (js ''me@example''))) =
     Rejected (js ''Please enter a valid email address'')
   \<and> handleAddProduct exampleUrlParses (exampleSubmission(''productEmail'' := None)) = TypeError"
proof -
  have blank: "\<not> list_all isWhiteSpace ([32, 32] @ js ''Kettle'' @ [32, 10])"
    "\<not> list_all isWhiteSpace ([32, 32] @ js ''https://shop.example.com/kettle'' @ [32, 10])"
    "\<not> list_all isWhiteSpace ([32, 32] @ js ''.stock'' @ [32, 10])"
    "\<not> list_all isWhiteSpace ([32, 32] @ js ''Sold out'' @ [32, 10])"
    "\<not> list_all isWhiteSpace ([32, 32] @ js ''me@example.com'' @ [32, 10])"
    "\<not> list_all isWhiteSpace (js ''me@example'')"
    unfolding trim_Nil_iff [symmetric] example_trims by (simp_all add: js_def)
  show ?thesis
    using
      handleAddProduct_posts_only_wellformed [of exampleSubmission exampleUrlParses
        "[32, 32] @ js ''Kettle'' @ [32, 10]"
        "[32, 32] @ js ''https://shop.example.com/kettle'' @ [32, 10]"
        "[32, 32] @ js ''.stock'' @ [32, 10]"
        "[32, 32] @ js ''Sold out'' @ [32, 10]"
        "[32, 32] @ js ''me@example.com'' @ [32, 10]"]
      handleAddProduct_posts_only_wellformed [of "exampleSubmission(''productEmail'' := Some (js ''me@example''))"
        exampleUrlParses
        "[32, 32] @ js ''Kettle'' @ [32, 10]"
        "[32, 32] @ js ''https://shop.example.com/kettle'' @ [32, 10]"
        "[32, 32] @ js ''.stock'' @ [32, 10]"
        "[32, 32] @ js ''Sold out'' @ [32, 10]"
        "js ''me@example''"]
      handleAddProduct_posts_only_wellformed [of "exampleSubmission(''productEmail'' := None)" exampleUrlParses]
    by (simp only: exampleSubmission_fields example_trims example_checks blank fun_upd_apply)
       simp
qed

section \<open>Properties of the engine of the specification\<close>

lemma transition_notifies_iff:
  "snd (transition e p) =
     (if state p = Active \<and> inStockResult e then [(productId p, case e of CheckResult r t d \<Rightarrow> t | Deactivate \<Rightarrow> 0)] else [])"
  by (cases e; cases "state p") (auto split: outcome.splits)

lemma transition_restock_iff:
  "(state p = Active \<and> state (fst (transition e p)) = Suspended \<and> inStockResult e) \<longleftrightarrow>
   (state p = Active \<and> inStockResult e)"
  by (cases e; cases "state p") (auto split: outcome.splits)

lemma transition_suspended: "state p = Suspended \<Longrightarrow> state (fst (transition e p)) = Suspended"
  by (cases e) auto

lemma transition_after_restock:
  "state p = Active \<Longrightarrow> inStockResult e \<Longrightarrow> state (fst (transition e p)) = Suspended"
  by (cases e) auto

lemma execution_suspended:
  "state p = Suspended \<Longrightarrow> snd (execution events p) = [] \<and> restockTransitions events p = 0"
proof (induction events arbitrary: p)
  case Nil
  show ?case by simp
next
  case (Cons e es)
  have "state (fst (transition e p)) = Suspended"
    using Cons.prems by (rule transition_suspended)
  then have "snd (execution es (fst (transition e p))) = [] \<and>
             restockTransitions es (fst (transition e p)) = 0"
    by (rule Cons.IH)
  moreover have "snd (transition e p) = []"
    using Cons.prems by (simp add: transition_notifies_iff)
  ultimately show ?case
    using Cons.prems by (simp add: case_prod_unfold Let_def)
qed

lemma execution_counts_restocks:
  "length (snd (execution events p)) = restockTransitions events p"
proof (induction events arbitrary: p)
  case Nil
  show ?case by simp
next
  case (Cons e es)
  have "length (snd (execution (e # es) p)) =
        length (snd (transition e p)) + length (snd (execution es (fst (transition e p))))"
    by (simp add: case_prod_unfold Let_def)
  also have "\<dots> = (if state p = Active \<and> inStockResult e then 1 else 0) +
                   restockTransitions es (fst (transition e p))"
    by (simp add: transition_notifies_iff Cons.IH)
  also have "\<dots> = restockTransitions (e # es) p"
    by (simp add: Let_def transition_restock_iff)
  finally show ?case .
qed

lemma execution_at_most_one: "length (snd (execution events p)) \<le> 1"
proof (induction events arbitrary: p)
  case Nil
  show ?case by simp
next
  case (Cons e es)
  show ?case
  proof (cases "state p = Active \<and> inStockResult e")
    case True
    then have "state (fst (transition e p)) = Suspended"
      by (simp add: transition_after_restock)
    then have "snd (execution es (fst (transition e p))) = []"
      by (simp add: execution_suspended)
    then show ?thesis
      by (simp add: case_prod_unfold Let_def transition_notifies_iff)
  next
    case False
    then have "snd (transition e p) = []"
      by (simp add: transition_notifies_iff)
    then show ?thesis
      using Cons.IH [of "fst (transition e p)"] by (simp add: case_prod_unfold Let_def)
  qed
qed

text \<open>
  Claim C1. An \<open>InStock\<close> result for an active product suspends it and enqueues
  one notification, and whatever comes later in the execution (a second \<open>InStock\<close>
  result, say) adds none; a result for a suspended product changes nothing and notifies
  nobody. In every execution the notifications are as many as the restock transitions,
  and there is at most one.
\<close>

theorem one_notification_per_restock:
  "(state p = Active \<longrightarrow>
      state (fst (transition (CheckResult InStock t diag) p)) = Suspended
    \<and> snd (transition (CheckResult InStock t diag) p) = [(productId p, t)]
    \<and> snd (execution (CheckResult InStock t diag # later) p) = [(productId p, t)])
   \<and> (state p = Suspended \<longrightarrow> transition (CheckResult res t diag) p = (p, []))
   \<and> length (snd (execution events p)) = restockTransitions events p
   \<and> length (snd (execution events p)) \<le> 1"
proof (intro conjI impI)
  assume a: "state p = Active"
  then show "state (fst (transition (CheckResult InStock t diag) p)) = Suspended"
    by simp
  from a show one: "snd (transition (CheckResult InStock t diag) p) = [(productId p, t)]"
    by simp
  from a have "snd (execution later (fst (transition (CheckResult InStock t diag) p))) = []"
    by (simp add: execution_suspended)
  with one show "snd (execution (CheckResult InStock t diag # later) p) = [(productId p, t)]"
    by (simp add: case_prod_unfold Let_def del: transition.simps)
next
  assume "state p = Suspended"
  then show "transition (CheckResult res t diag) p = (p, [])" by simp
next
  show "length (snd (execution events p)) = restockTransitions events p"
    by (rule execution_counts_restocks)
  show "length (snd (execution events p)) \<le> 1"
    by (rule execution_at_most_one)
qed

text \<open>
  Claim C1, at a concrete input: two failures, a restock at time 3, a stale
  \<open>InStock\<close> at time 4 and a deactivation give the one notification of time 3.
\<close>

theorem one_notification_per_restock_witness:
  "snd (execution [CheckResult OutOfStock 1 [], CheckResult FetchFailed 2 ''timeout'',
                   CheckResult InStock 3 [], CheckResult InStock 4 [], Deactivate]
          exampleEngineProduct) = [(7, 3)]
   \<and> state (fst (transition (CheckResult InStock 3 []) exampleEngineProduct)) = Suspended
   \<and> transition (CheckResult InStock 4 []) (fst (transition (CheckResult InStock 3 []) exampleEngineProduct)) =
       (fst (transition (CheckResult InStock 3 []) exampleEngineProduct), [])"
  using one_notification_per_restock [of exampleEngineProduct 3 "[]" "[]" InStock "[]"]
    one_notification_per_restock [of "fst (transition (CheckResult InStock 3 []) exampleEngineProduct)" 4 "[]" "[]" InStock "[]"]
  by (simp add: exampleEngineProduct_def)

text \<open>
  Claim C2. \<open>evaluate\<close> gives \<open>ExtractFailed\<close> for "not found"; for a text it
  gives \<open>OutOfStock\<close> exactly when the trimmed text equals the marker, character for
  character (so the case counts), and \<open>InStock\<close> in every other case. The trimmed
  text is the text without a run of white space at each end, and it neither starts nor
  ends with white space.
\<close>

theorem evaluate_classification:
  "evaluate ws NotFound marker = ExtractFailed
   \<and> (evaluate ws (Found found) marker = OutOfStock \<longleftrightarrow> trimWith ws found = marker)
   \<and> (evaluate ws (Found found) marker = InStock \<longleftrightarrow> trimWith ws found \<noteq> marker)
   \<and> evaluate ws (Found found) marker \<noteq> ExtractFailed
   \<and> evaluate ws extracted marker \<noteq> FetchFailed
   \<and> (\<exists>before after. found = before @ trimWith ws found @ after \<and> list_all ws before \<and> list_all ws after)
   \<and> (trimWith ws found \<noteq> [] \<longrightarrow> \<not> ws (hd (trimWith ws found)) \<and> \<not> ws (last (trimWith ws found)))"
proof -
  have "\<exists>before after. found = before @ trimWith ws found @ after \<and> list_all ws before \<and> list_all ws after"
    using trimWith_decompose [of found ws] trimWith_cut_is_space [of ws found] by blast
  moreover have "evaluate ws extracted marker \<noteq> FetchFailed"
    by (cases extracted) simp_all
  ultimately show ?thesis
    by (simp add: trimWith_hd trimWith_last)
qed

text \<open>
  Claim C2, at a concrete input, the scenario of section 8 of the specification with
  the blank as white space: the marker with blanks around it, another text, the marker
  in lower case, and "not found".
\<close>

theorem evaluate_classification_witness:
  "evaluate (\<lambda>c. c = CHR '' '') (Found ''  Currently unavailable '') ''Currently unavailable'' = OutOfStock
   \<and> evaluate (\<lambda>c. c = CHR '' '') (Found ''In Stock'') ''Currently unavailable'' = InStock
   \<and> evaluate (\<lambda>c. c = CHR '' '') (Found ''currently unavailable'') ''Currently unavailable'' = InStock
   \<and> evaluate (\<lambda>c. c = CHR '' '') NotFound ''Currently unavailable'' = ExtractFailed
   \<and> hd (trimWith (\<lambda>c. c = CHR '' '') ''  Currently unavailable '') = CHR ''C''"
  using evaluate_classification [of "\<lambda>c. c = CHR '' ''" "''Currently unavailable''" "''  Currently unavailable ''" NotFound]
    evaluate_classification [of "\<lambda>c. c = CHR '' ''" "''Currently unavailable''" "''In Stock''" NotFound]
  by (simp add: trimWith_def)

end
